theory Spec2Isabelle
  imports Complex_Main "HOL-Library.Product_Lexorder" "HOL-Library.AList"
begin

section \<open>Python values\<close>

text \<open>
  The hybrid product-recommendation search of the repository, as it is written in
  \<^verbatim>\<open>modules/search/llm_service.py\<close> (the single-step flow, class
  \<^verbatim>\<open>LLMRecommendationService\<close>) and
  \<^verbatim>\<open>modules/search/shopping_research_service.py\<close> (the two-step flow, class
  \<^verbatim>\<open>ShoppingResearchService\<close>).

  Python \<^verbatim>\<open>str\<close> values are modelled as \<^typ>\<open>string\<close> holding the UTF-8
  bytes of the text; a substring test on the bytes agrees with Python's on code points
  because UTF-8 is self-synchronising. Python floats are modelled as \<^typ>\<open>real\<close>:
  the rounding of floating-point operations is not modelled. An exception is a value of
  type \<open>error\<close> in the left summand of a sum; every \<^verbatim>\<open>except Exception\<close> of
  the source catches all of them.
\<close>

datatype error = ValueError | RecursionError | ProviderError

text \<open>What \<^verbatim>\<open>gemini_client.generate_content\<close> hands back. The client of
  \<^verbatim>\<open>shared/ai_clients.py\<close> returns a \<^verbatim>\<open>str\<close> (\<open>PlainText\<close>); parts of
  the single-step flow read \<^verbatim>\<open>resp.text\<close>, which only an object with that
  attribute has (\<open>TextObject\<close>).\<close>

datatype llm_response = PlainText string | TextObject string

subsection \<open>Strings\<close>

definition startswith :: "string \<Rightarrow> string \<Rightarrow> bool" where
  "startswith s k = (take (length k) s = k)"

text \<open>\<^verbatim>\<open>k in s\<close> on strings.\<close>

fun contains :: "string \<Rightarrow> string \<Rightarrow> bool" where
  "contains [] k = (k = [])"
| "contains (c # cs) k = (startswith (c # cs) k \<or> contains cs k)"

text \<open>\<^verbatim>\<open>str.upper\<close>, modelled on the ASCII letters; every other byte is left as it
  is (Hangul has no case).\<close>

definition upper_char :: "char \<Rightarrow> char" where
  "upper_char c =
     (case map_of (zip ''abcdefghijklmnopqrstuvwxyz'' ''ABCDEFGHIJKLMNOPQRSTUVWXYZ'') c of
        Some u \<Rightarrow> u
      | None \<Rightarrow> c)"

definition upper :: "string \<Rightarrow> string" where
  "upper s = map upper_char s"

text \<open>The characters Python counts as white space (those of \<^verbatim>\<open>str.isspace\<close>,
  which \<^verbatim>\<open>str.strip\<close> removes and \<^verbatim>\<open>\s\<close> matches), each as its UTF-8
  bytes: U+0009 to U+000D, U+001C to U+0020, U+0085, U+00A0, U+1680, U+2000 to U+200A,
  U+2028, U+2029, U+202F, U+205F and U+3000.\<close>

definition whitespace :: "string list" where
  "whitespace =
     [[CHR 0x09], [CHR 0x0A], [CHR 0x0B], [CHR 0x0C], [CHR 0x0D],
      [CHR 0x1C], [CHR 0x1D], [CHR 0x1E], [CHR 0x1F], [CHR 0x20],
      [CHR 0xC2, CHR 0x85], [CHR 0xC2, CHR 0xA0], [CHR 0xE1, CHR 0x9A, CHR 0x80],
      [CHR 0xE2, CHR 0x80, CHR 0x80], [CHR 0xE2, CHR 0x80, CHR 0x81],
      [CHR 0xE2, CHR 0x80, CHR 0x82], [CHR 0xE2, CHR 0x80, CHR 0x83],
      [CHR 0xE2, CHR 0x80, CHR 0x84], [CHR 0xE2, CHR 0x80, CHR 0x85],
      [CHR 0xE2, CHR 0x80, CHR 0x86], [CHR 0xE2, CHR 0x80, CHR 0x87],
      [CHR 0xE2, CHR 0x80, CHR 0x88], [CHR 0xE2, CHR 0x80, CHR 0x89],
      [CHR 0xE2, CHR 0x80, CHR 0x8A], [CHR 0xE2, CHR 0x80, CHR 0xA8],
      [CHR 0xE2, CHR 0x80, CHR 0xA9], [CHR 0xE2, CHR 0x80, CHR 0xAF],
      [CHR 0xE2, CHR 0x81, CHR 0x9F], [CHR 0xE3, CHR 0x80, CHR 0x80]]"

text \<open>The text left when every leading occurrence of one of the given byte sequences is
  removed.\<close>

function strip_prefix :: "string list \<Rightarrow> string \<Rightarrow> string" where
  "strip_prefix ws s =
     (case find (\<lambda>w. w \<noteq> [] \<and> startswith s w) ws of
        None \<Rightarrow> s
      | Some w \<Rightarrow> strip_prefix ws (drop (length w) s))"
  by pat_completeness auto
termination
proof (relation "measure (\<lambda>(ws, s). length s)")
  show "wf (measure (\<lambda>(ws, s). length s))" by simp
next
  fix ws :: "string list" and s w :: string
  assume "find (\<lambda>w. w \<noteq> [] \<and> startswith s w) ws = Some w"
  then have "w \<noteq> []" and "take (length w) s = w"
    by (auto simp: find_Some_iff startswith_def)
  then have "s \<noteq> []" by auto
  with \<open>w \<noteq> []\<close> show "((ws, drop (length w) s), (ws, s)) \<in> measure (\<lambda>(ws, s). length s)"
    by simp
qed

declare strip_prefix.simps [simp del]

text \<open>\<^verbatim>\<open>str.strip()\<close>: white space is removed at both ends. On the bytes, a
  character at the end of the text is its byte sequence at the end.\<close>

definition lstrip :: "string \<Rightarrow> string" where
  "lstrip s = strip_prefix whitespace s"

definition rstrip :: "string \<Rightarrow> string" where
  "rstrip s = rev (strip_prefix (map rev whitespace) (rev s))"

definition strip :: "string \<Rightarrow> string" where
  "strip s = rstrip (lstrip s)"

text \<open>\<^verbatim>\<open>re.search(r'\{[\s\S]*\}', s)\<close>: the text from the first opening brace to
  the last closing brace after it, or no match.\<close>

definition re_search_braces :: "string \<Rightarrow> string option" where
  "re_search_braces s =
     (let t = dropWhile (\<lambda>c. c \<noteq> CHR 0x7B) s
      in if t = [] then None
         else (let r = rev (dropWhile (\<lambda>c. c \<noteq> CHR 0x7D) (rev (tl t)))
               in if r = [] then None else Some (CHR 0x7B # r)))"

text \<open>\<^verbatim>\<open>sep.join(xs)\<close>.\<close>

fun join :: "string \<Rightarrow> string list \<Rightarrow> string" where
  "join sep [] = []"
| "join sep [x] = x"
| "join sep (x # y # ys) = x @ sep @ join sep (y # ys)"

text \<open>\<^verbatim>\<open>str(n)\<close> of an integer, as an f-string renders it.\<close>

function str_nat :: "nat \<Rightarrow> string" where
  "str_nat n =
     (if n < 10 then [char_of (48 + n)]
      else str_nat (n div 10) @ [char_of (48 + n mod 10)])"
  by pat_completeness auto
termination
  by (relation "measure id") auto

declare str_nat.simps [simp del]

definition str_int :: "int \<Rightarrow> string" where
  "str_int i = (if i < 0 then CHR 0x2D # str_nat (nat (- i)) else str_nat (nat i))"

text \<open>\<^verbatim>\<open>sorted(xs, key=key, reverse=True)\<close> and
  \<^verbatim>\<open>xs.sort(key=key, reverse=True)\<close>: descending, and stable (elements with equal
  keys keep their order).\<close>

definition sorted_desc :: "('a \<Rightarrow> 'k::linorder) \<Rightarrow> 'a list \<Rightarrow> 'a list" where
  "sorted_desc key xs = rev (sort_key key (rev xs))"

text \<open>\<^verbatim>\<open>round(x, 2)\<close>: to two decimals, halves to the even neighbour.\<close>

definition round2 :: "real \<Rightarrow> real" where
  "round2 x =
     (let y = x * 100; f = \<lfloor>y\<rfloor>; d = y - of_int f
      in of_int (if d < 1 / 2 then f else if 1 / 2 < d then f + 1
                 else if even f then f else f + 1) / 100)"

section \<open>The store\<close>

type_synonym embedding = "real list"

text \<open>\<^verbatim>\<open>ProductModel\<close> of \<^verbatim>\<open>modules/products/models.py\<close>. Of the JSON field
  \<^verbatim>\<open>detail_spec\<close> the two entries the search code reads are kept,
  \<^verbatim>\<open>spec_summary\<close> and \<^verbatim>\<open>spec\<close>; \<^verbatim>\<open>deleted_at\<close> is represented by
  whether it is set.\<close>

record product_model =
  pk :: int
  danawa_product_id :: string
  name :: string
  brand :: string
  lowest_price :: int
  category_id :: "int option"
  product_status :: "string option"
  deleted :: bool
  detail_spec_vector :: "embedding option"
  review_count :: int
  review_rating :: "real option"
  spec_summary :: "string list"
  spec :: "(string \<times> string) list"

record mall_information_model =
  mall_product_id :: int
  current_price :: int
  representative_image_url :: "string option"
  product_page_url :: "string option"
  created_at :: nat
  mall_deleted :: bool

text \<open>\<^verbatim>\<open>CategoryModel\<close> of \<^verbatim>\<open>modules/categories/models.py\<close>.\<close>

record category_model =
  cat_id :: int
  cat_name :: string
  parent_id :: "int option"
  cat_deleted :: bool

subsection \<open>What the language model's JSON decodes to\<close>

text \<open>The dictionary \<^verbatim>\<open>json.loads\<close> returns for an intent: each key is absent
  (\<open>None\<close>) or holds a value of the type the code expects.\<close>

record raw_intent =
  raw_product_category :: "string option"
  raw_search_query :: "string option"
  raw_keywords :: "string list option"
  raw_min_price :: "int option"
  raw_max_price :: "int option"
  raw_user_needs :: "string option"
  raw_analysis_message :: "string option"

text \<open>One entry of the \<^verbatim>\<open>results\<close> list of a batched answer;
  \<open>item_product_code\<close> is \<^verbatim>\<open>str(item.get('product_code'))\<close>.\<close>

record analysis_item =
  item_product_code :: string
  item_recommendation_reason :: "string option"
  item_ai_review_summary :: "string option"

datatype option_item = OptionLabel string | OptionObject int string

record question_item =
  question_id :: "int option"
  question :: string
  options :: "option_item list option"

subsection \<open>The collaborators\<close>

text \<open>
  The external services and library calls the two services use, as the parameters of the
  model: the language-model and embedding clients of \<^verbatim>\<open>shared/ai_clients.py\<close>
  (\<open>Inl\<close> when the call raises); the tables of the relational store; the similarity and
  distance operators of the database; \<^verbatim>\<open>json.loads\<close> on an answer, together with
  the reading of the entry the caller takes from it (the intent itself, the list
  \<^verbatim>\<open>results\<close>, the list \<^verbatim>\<open>questions\<close>; \<open>None\<close> when decoding raises, the
  empty list when the entry is absent); \<^verbatim>\<open>int\<close> on a string (\<open>None\<close> when it
  raises); the prompt templates of \<^verbatim>\<open>modules/search/prompts.py\<close> filled with their
  arguments; and the depth of recursion the interpreter allows. Where the database leaves
  the order of rows open, or orders them by a collation, the model keeps the order of the
  table.
\<close>

record env =
  generate_content :: "string \<Rightarrow> error + llm_response"
  create_embedding :: "string \<Rightarrow> error + embedding"
  products :: "product_model list"
  categories :: "category_model list"
  mall_information :: "mall_information_model list"
  trigram_similarity :: "string \<Rightarrow> string \<Rightarrow> real"
  cosine_distance :: "embedding \<Rightarrow> embedding \<Rightarrow> real"
  l2_distance :: "embedding \<Rightarrow> embedding \<Rightarrow> real"
  json_intent :: "string \<Rightarrow> raw_intent option"
  json_results :: "string \<Rightarrow> analysis_item list option"
  json_questions :: "string \<Rightarrow> question_item list option"
  py_int :: "string \<Rightarrow> int option"
  question_generation_prompt :: "string \<Rightarrow> string"
  shopping_research_analysis_prompt :: "string \<Rightarrow> string \<Rightarrow> string"
  batch_product_analysis_prompt :: "string \<Rightarrow> string \<Rightarrow> product_model list \<Rightarrow> string"
  recommendation_reason_prompt ::
    "string \<Rightarrow> string \<Rightarrow> string \<Rightarrow> string \<Rightarrow> int \<Rightarrow> string \<Rightarrow> string"
  ai_review_summary_prompt :: "string \<Rightarrow> string \<Rightarrow> int \<Rightarrow> string \<Rightarrow> string \<Rightarrow> string"
  intent_extraction_prompt :: "string \<Rightarrow> string \<Rightarrow> string"
  combined_recommendation_prompt ::
    "string \<Rightarrow> string \<Rightarrow> string \<Rightarrow> product_model list \<Rightarrow> string"
  recursion_limit :: nat

section \<open>Category descendants\<close>

text \<open>\<^verbatim>\<open>CategoryModel.objects.filter(parent_id=category_id, deleted_at__isnull=True)\<close>,
  in the order of the table.\<close>

definition children_of :: "category_model list \<Rightarrow> int \<Rightarrow> category_model list" where
  "children_of cats cid = filter (\<lambda>c. parent_id c = Some cid \<and> \<not> cat_deleted c) cats"

text \<open>\<^verbatim>\<open>_get_descendant_category_ids\<close>, the same in both services. The first
  argument is the depth of recursion left; \<open>None\<close> is Python's
  \<^verbatim>\<open>RecursionError\<close>.\<close>

fun get_descendant_category_ids :: "nat \<Rightarrow> category_model list \<Rightarrow> int \<Rightarrow> int list option" where
  "get_descendant_category_ids 0 cats cid = None"
| "get_descendant_category_ids (Suc n) cats cid =
     map_option (\<lambda>below. cid # concat below)
       (those (map (\<lambda>child. get_descendant_category_ids n cats (cat_id child))
                   (children_of cats cid)))"

section \<open>The two-step flow\<close>

text \<open>The class constants of \<^verbatim>\<open>ShoppingResearchService\<close>; \<open>TOP_K\<close> is the same
  in \<^verbatim>\<open>LLMRecommendationService\<close>.\<close>

definition CACHE_TTL :: nat where "CACHE_TTL = 1800"
definition TOP_K :: nat where "TOP_K = 5"
definition SEARCH_LIMIT :: nat where "SEARCH_LIMIT = 50"
definition VECTOR_WEIGHT :: real where "VECTOR_WEIGHT = 1.0"
definition MIN_SIMILARITY :: real where "MIN_SIMILARITY = 0.60"

subsection \<open>The session cache\<close>

text \<open>The dictionary kept per session. \<open>cached_questions\<close> is the entry
  \<^verbatim>\<open>'questions'\<close>, \<open>None\<close> when the dictionary has no such key.\<close>

record cached_data =
  cached_user_query :: string
  cached_questions :: "question_item list option"

text \<open>Django's cache: a key holds a value and the time at which it expires; the clock is
  an argument, in seconds.\<close>

type_synonym cache = "string \<Rightarrow> (cached_data \<times> nat) option"

definition cache_set :: "cache \<Rightarrow> string \<Rightarrow> cached_data \<Rightarrow> nat \<Rightarrow> nat \<Rightarrow> cache" where
  "cache_set c key v timeout now = c(key \<mapsto> (v, now + timeout))"

definition cache_get :: "cache \<Rightarrow> string \<Rightarrow> nat \<Rightarrow> cached_data option" where
  "cache_get c key now =
     (case c key of None \<Rightarrow> None
      | Some (v, expires) \<Rightarrow> if now < expires then Some v else None)"

text \<open>\<^verbatim>\<open>_generate_search_id\<close>; \<open>uuid_hex\<close> is \<^verbatim>\<open>uuid.uuid4().hex\<close>.\<close>

definition generate_search_id :: "cache \<Rightarrow> nat \<Rightarrow> string \<Rightarrow> string \<Rightarrow> string \<times> cache" where
  "generate_search_id c now uuid_hex user_query =
     (let search_id = ''sr-'' @ take 8 uuid_hex;
          cache_key = ''shopping_research:'' @ search_id
      in (search_id,
          cache_set c cache_key
            \<lparr>cached_user_query = user_query, cached_questions = None\<rparr> CACHE_TTL now))"

definition validate_search_id :: "cache \<Rightarrow> nat \<Rightarrow> string \<Rightarrow> cached_data option" where
  "validate_search_id c now search_id = cache_get c (''shopping_research:'' @ search_id) now"

subsection \<open>Question generation\<close>

text \<open>\<^verbatim>\<open>_get_default_questions\<close>: the four fixed questions, on the purpose of use,
  on the budget, on the display and on portability, each with its options.\<close>

definition get_default_questions :: "question_item list" where
  "get_default_questions =
     [\<lparr>question_id = Some 1,
       question = [CHR 0xEC, CHR 0xA3, CHR 0xBC, CHR 0xEC, CHR 0x9A, CHR 0x94, CHR 0x20,
                   CHR 0xEC, CHR 0x82, CHR 0xAC, CHR 0xEC, CHR 0x9A, CHR 0xA9, CHR 0x20,
                   CHR 0xEB, CHR 0xAA, CHR 0xA9, CHR 0xEC, CHR 0xA0, CHR 0x81, CHR 0xEC,
                   CHR 0x9D, CHR 0x80, CHR 0x20, CHR 0xEB, CHR 0xAC, CHR 0xB4, CHR 0xEC,
                   CHR 0x97, CHR 0x87, CHR 0xEC, CHR 0x9D, CHR 0xB8, CHR 0xEA, CHR 0xB0,
                   CHR 0x80, CHR 0xEC, CHR 0x9A, CHR 0x94, CHR 0x3F],
       options = Some [OptionObject 1 [CHR 0xEC, CHR 0x9D, CHR 0xBC, CHR 0xEB, CHR 0xB0,
                                       CHR 0x98, CHR 0x20, CHR 0xEC, CHR 0x97, CHR 0x85,
                                       CHR 0xEB, CHR 0xAC, CHR 0xB4],
                       OptionObject 2 [CHR 0xEC, CHR 0x98, CHR 0x81, CHR 0xEC, CHR 0x83,
                                       CHR 0x81, CHR 0x20, CHR 0xED, CHR 0x8E, CHR 0xB8,
                                       CHR 0xEC, CHR 0xA7, CHR 0x91],
                       OptionObject 3 [CHR 0xEA, CHR 0xB2, CHR 0x8C, CHR 0xEC, CHR 0x9E,
                                       CHR 0x84],
                       OptionObject 4 [CHR 0xEA, CHR 0xB0, CHR 0x9C, CHR 0xEB, CHR 0xB0,
                                       CHR 0x9C]]\<rparr>,
      \<lparr>question_id = Some 2,
       question = [CHR 0xEC, CHR 0x83, CHR 0x9D, CHR 0xEA, CHR 0xB0, CHR 0x81, CHR 0xED,
                   CHR 0x95, CHR 0x98, CHR 0xEC, CHR 0x8B, CHR 0x9C, CHR 0xEB, CHR 0x8A,
                   CHR 0x94, CHR 0x20, CHR 0xEC, CHR 0x98, CHR 0x88, CHR 0xEC, CHR 0x82,
                   CHR 0xB0, CHR 0x20, CHR 0xEB, CHR 0xB2, CHR 0x94, CHR 0xEC, CHR 0x9C,
                   CHR 0x84, CHR 0xEB, CHR 0x8A, CHR 0x94, CHR 0x3F],
       options = Some [OptionObject 1 [CHR 0x31, CHR 0x30, CHR 0x30, CHR 0xEB, CHR 0xA7,
                                       CHR 0x8C, CHR 0xEC, CHR 0x9B, CHR 0x90, CHR 0x20,
                                       CHR 0xEB, CHR 0xAF, CHR 0xB8, CHR 0xEB, CHR 0xA7,
                                       CHR 0x8C],
                       OptionObject 2 [CHR 0x31, CHR 0x30, CHR 0x30, CHR 0x7E, CHR 0x31,
                                       CHR 0x35, CHR 0x30, CHR 0xEB, CHR 0xA7, CHR 0x8C,
                                       CHR 0xEC, CHR 0x9B, CHR 0x90],
                       OptionObject 3 [CHR 0x31, CHR 0x35, CHR 0x30, CHR 0x7E, CHR 0x32,
                                       CHR 0x30, CHR 0x30, CHR 0xEB, CHR 0xA7, CHR 0x8C,
                                       CHR 0xEC, CHR 0x9B, CHR 0x90],
                       OptionObject 4 [CHR 0x32, CHR 0x30, CHR 0x30, CHR 0xEB, CHR 0xA7,
                                       CHR 0x8C, CHR 0xEC, CHR 0x9B, CHR 0x90, CHR 0x20,
                                       CHR 0xEC, CHR 0x9D, CHR 0xB4, CHR 0xEC, CHR 0x83,
                                       CHR 0x81]]\<rparr>,
      \<lparr>question_id = Some 3,
       question = [CHR 0xEB, CHR 0x94, CHR 0x94, CHR 0xEC, CHR 0x8A, CHR 0xA4, CHR 0xED,
                   CHR 0x94, CHR 0x8C, CHR 0xEB, CHR 0xA0, CHR 0x88, CHR 0xEC, CHR 0x9D,
                   CHR 0xB4, CHR 0xEC, CHR 0x97, CHR 0x90, CHR 0xEC, CHR 0x84, CHR 0x9C,
                   CHR 0x20, CHR 0xEA, CHR 0xB0, CHR 0x80, CHR 0xEC, CHR 0x9E, CHR 0xA5,
                   CHR 0x20, CHR 0xEC, CHR 0xA4, CHR 0x91, CHR 0xEC, CHR 0x9A, CHR 0x94,
                   CHR 0xED, CHR 0x95, CHR 0x9C, CHR 0x20, CHR 0xEC, CHR 0xA0, CHR 0x90,
                   CHR 0xEC, CHR 0x9D, CHR 0x80, CHR 0x3F],
       options = Some [OptionObject 1 [CHR 0xED, CHR 0x95, CHR 0xB4, CHR 0xEC, CHR 0x83,
                                       CHR 0x81, CHR 0xEB, CHR 0x8F, CHR 0x84],
                       OptionObject 2 [CHR 0xEC, CHR 0x83, CHR 0x89, CHR 0xEC, CHR 0x9E,
                                       CHR 0xAC, CHR 0xED, CHR 0x98, CHR 0x84, CHR 0xEC,
                                       CHR 0x9C, CHR 0xA8],
                       OptionObject 3 [CHR 0xED, CHR 0x81, CHR 0xAC, CHR 0xEA, CHR 0xB8,
                                       CHR 0xB0],
                       OptionObject 4 [CHR 0xEC, CHR 0xA3, CHR 0xBC, CHR 0xEC, CHR 0x82,
                                       CHR 0xAC, CHR 0xEC, CHR 0x9C, CHR 0xA8]]\<rparr>,
      \<lparr>question_id = Some 4,
       question = [CHR 0xED, CHR 0x9C, CHR 0xB4, CHR 0xEB, CHR 0x8C, CHR 0x80, CHR 0xEC,
                   CHR 0x84, CHR 0xB1, CHR 0xEC, CHR 0x9D, CHR 0x84, CHR 0x20, CHR 0xEC,
                   CHR 0x96, CHR 0xB4, CHR 0xEB, CHR 0x8A, CHR 0x90, CHR 0x20, CHR 0xEC,
                   CHR 0xA0, CHR 0x95, CHR 0xEB, CHR 0x8F, CHR 0x84, CHR 0x20, CHR 0xEA,
                   CHR 0xB3, CHR 0xA0, CHR 0xEB, CHR 0xA0, CHR 0xA4, CHR 0xED, CHR 0x95,
                   CHR 0x98, CHR 0xEC, CHR 0x8B, CHR 0x9C, CHR 0xEB, CHR 0x82, CHR 0x98,
                   CHR 0xEC, CHR 0x9A, CHR 0x94, CHR 0x3F],
       options = Some [OptionObject 1 [CHR 0xEB, CHR 0xA7, CHR 0xA4, CHR 0xEC, CHR 0x9A,
                                       CHR 0xB0, CHR 0x20, CHR 0xEC, CHR 0xA4, CHR 0x91,
                                       CHR 0xEC, CHR 0x9A, CHR 0x94],
                       OptionObject 2 [CHR 0xEB, CHR 0xB3, CHR 0xB4, CHR 0xED, CHR 0x86,
                                       CHR 0xB5],
                       OptionObject 3 [CHR 0xEC, CHR 0x84, CHR 0xB1, CHR 0xEB, CHR 0x8A,
                                       CHR 0xA5, CHR 0xEC, CHR 0x9D, CHR 0xB4, CHR 0x20,
                                       CHR 0xEB, CHR 0x8D, CHR 0x94, CHR 0x20, CHR 0xEC,
                                       CHR 0xA4, CHR 0x91, CHR 0xEC, CHR 0x9A, CHR 0x94]]\<rparr>]"

text \<open>\<^verbatim>\<open>enumerate(xs, 1)\<close>.\<close>

definition enumerate1 :: "'a list \<Rightarrow> (nat \<times> 'a) list" where
  "enumerate1 xs = zip [1..<Suc (length xs)] xs"

definition convert_options :: "option_item list \<Rightarrow> option_item list" where
  "convert_options opts =
     map (\<lambda>(idx, opt). case opt of OptionLabel l \<Rightarrow> OptionObject (int idx) l
                                  | OptionObject i l \<Rightarrow> OptionObject i l)
         (enumerate1 opts)"

definition prepare_question :: "nat \<Rightarrow> question_item \<Rightarrow> question_item" where
  "prepare_question i q =
     q\<lparr>question_id := (case question_id q of None \<Rightarrow> Some (int i) | Some k \<Rightarrow> Some k),
       options := (case options q of None \<Rightarrow> None
                   | Some os \<Rightarrow> if os = [] then Some [] else Some (convert_options os))\<rparr>"

text \<open>\<^verbatim>\<open>generate_questions\<close>: the session is written first, by
  \<^verbatim>\<open>_generate_search_id\<close>; the questions are made afterwards and returned.\<close>

definition generate_questions ::
  "env \<Rightarrow> cache \<Rightarrow> nat \<Rightarrow> string \<Rightarrow> string \<Rightarrow> (string \<times> question_item list) \<times> cache" where
  "generate_questions e c now uuid_hex user_query =
     (let (search_id, c') = generate_search_id c now uuid_hex user_query;
          prompt = question_generation_prompt e user_query;
          questions =
            (case generate_content e prompt of
               Inl err \<Rightarrow> get_default_questions
             | Inr (TextObject t) \<Rightarrow> get_default_questions
             | Inr (PlainText response) \<Rightarrow>
                 (case json_questions e
                         (case re_search_braces response of Some m \<Rightarrow> m | None \<Rightarrow> response) of
                    None \<Rightarrow> get_default_questions
                  | Some qs \<Rightarrow> map (\<lambda>(i, q). prepare_question i q) (enumerate1 qs)))
      in ((search_id, questions), c'))"

subsection \<open>Survey analysis\<close>

record survey =
  s_question_id :: int
  s_question :: "string option"
  s_answer :: string

text \<open>The f-string that stands in for a missing question text: the Korean word for
  "question", a space, and the question id.\<close>

definition question_placeholder :: "int \<Rightarrow> string" where
  "question_placeholder qid = [CHR 0xEC, CHR 0xA7, CHR 0x88, CHR 0xEB, CHR 0xAC, CHR 0xB8,
                               CHR 0x20] @ str_int qid"

text \<open>The block of \<^verbatim>\<open>get_recommendations\<close> that fills in missing question texts
  from the cached data.\<close>

definition fill_question_texts :: "cached_data option \<Rightarrow> survey list \<Rightarrow> survey list" where
  "fill_question_texts cached survey_contents =
     (case cached of
        None \<Rightarrow> survey_contents
      | Some d \<Rightarrow>
          (case cached_questions d of
             None \<Rightarrow> survey_contents
           | Some qs \<Rightarrow>
               (let questions_map = map_of (rev (map (\<lambda>q. (question_id q, question q)) qs))
                in map (\<lambda>s. if s_question s = None \<or> s_question s = Some []
                             then s\<lparr>s_question :=
                                      Some (case questions_map (Some (s_question_id s)) of
                                              Some t \<Rightarrow> t
                                            | None \<Rightarrow> question_placeholder (s_question_id s))\<rparr>
                             else s)
                       survey_contents)))"

record intent =
  product_category :: "string option"
  search_query :: string
  keyword_list :: "string list"
  min_price :: "int option"
  max_price :: "int option"
  user_needs :: string

definition format_survey_item :: "survey \<Rightarrow> string" where
  "format_survey_item s =
     (let qid = s_question_id s;
          question_text = (case s_question s of
                             None \<Rightarrow> question_placeholder qid
                           | Some t \<Rightarrow> if t = [] then question_placeholder qid else t);
          answer = s_answer s
      in ''Q'' @ str_int qid @ '': '' @ question_text @ '' -> A: '' @ answer)"

definition fallback_intent :: "string \<Rightarrow> survey list \<Rightarrow> intent" where
  "fallback_intent user_query survey_contents =
     (let answers = map s_answer survey_contents;
          combined_query = user_query @ '' '' @ join '' '' answers
      in \<lparr>product_category = None, search_query = combined_query,
          keyword_list = user_query # answers, min_price = None, max_price = None,
          user_needs = user_query\<rparr>)"

text \<open>The dictionary \<^verbatim>\<open>_analyze_survey\<close> returns when the answer was decoded.
  The entry \<^verbatim>\<open>priorities\<close> is left out: nothing reads it.\<close>

definition build_intent :: "string \<Rightarrow> raw_intent \<Rightarrow> intent" where
  "build_intent user_query i =
     (let min_price' = raw_min_price i; max_price' = raw_max_price i
      in \<lparr>product_category = raw_product_category i,
          search_query = (case raw_search_query i of Some q \<Rightarrow> q | None \<Rightarrow> user_query),
          keyword_list = (case raw_keywords i of Some k \<Rightarrow> k | None \<Rightarrow> [user_query]),
          min_price = (case min_price' of Some m \<Rightarrow> Some m | None \<Rightarrow> None),
          max_price = (case max_price' of
                         Some m \<Rightarrow> if 0 < m then Some m else None
                       | None \<Rightarrow> None),
          user_needs = (case raw_user_needs i of Some n \<Rightarrow> n | None \<Rightarrow> user_query)\<rparr>)"

text \<open>\<^verbatim>\<open>_analyze_survey\<close>.\<close>

definition analyze_survey :: "env \<Rightarrow> string \<Rightarrow> survey list \<Rightarrow> intent" where
  "analyze_survey e user_query survey_contents =
     (let survey_text = join [CHR 0x0A] (map format_survey_item survey_contents);
          prompt = shopping_research_analysis_prompt e user_query survey_text
      in case generate_content e prompt of
           Inl err \<Rightarrow> fallback_intent user_query survey_contents
         | Inr (TextObject t) \<Rightarrow> fallback_intent user_query survey_contents
         | Inr (PlainText response) \<Rightarrow>
             if response = [] then fallback_intent user_query survey_contents
             else (case json_intent e
                          (case re_search_braces response of Some m \<Rightarrow> m | None \<Rightarrow> response) of
                     None \<Rightarrow> fallback_intent user_query survey_contents
                   | Some i \<Rightarrow> build_intent user_query i))"

subsection \<open>Category and price filters\<close>

text \<open>The category whose name is most similar to the guess, among those above the
  threshold: \<^verbatim>\<open>annotate(similarity=TrigramSimilarity('name', guess))\<close>,
  \<^verbatim>\<open>filter(similarity__gt=threshold)\<close>, \<^verbatim>\<open>order_by('-similarity').first()\<close>.\<close>

definition best_match :: "env \<Rightarrow> string \<Rightarrow> real \<Rightarrow> category_model option" where
  "best_match e guess threshold =
     (case sorted_desc (\<lambda>c. trigram_similarity e (cat_name c) guess)
             (filter (\<lambda>c. threshold < trigram_similarity e (cat_name c) guess) (categories e)) of
        [] \<Rightarrow> None
      | c # rest \<Rightarrow> Some c)"

definition srs_resolve_category :: "env \<Rightarrow> intent \<Rightarrow> int option" where
  "srs_resolve_category e i =
     (case product_category i of
        None \<Rightarrow> None
      | Some llm_category_name \<Rightarrow>
          if llm_category_name = [] then None
          else map_option cat_id (best_match e llm_category_name 0.3))"

text \<open>The price range validation of \<^verbatim>\<open>get_recommendations\<close>.\<close>

definition validate_price_range :: "int option \<Rightarrow> int option \<Rightarrow> int option \<times> int option" where
  "validate_price_range min_price' max_price' =
     (case (min_price', max_price') of
        (Some lo, Some hi) \<Rightarrow> if hi < lo then (None, None) else (min_price', max_price')
      | _ \<Rightarrow> (min_price', max_price'))"

subsection \<open>Vector search and fusion\<close>

record hit =
  product :: product_model
  mall_info :: "mall_information_model option"

record scored_hit = hit +
  vector_score :: real

record fused_hit = scored_hit +
  combined_score :: real

text \<open>The three excluded states: discontinued, sales stopped, sold out.\<close>

definition excluded_status :: "string list" where
  "excluded_status = [[CHR 0xEB, CHR 0x8B, CHR 0xA8, CHR 0xEC, CHR 0xA2, CHR 0x85], [CHR 0xED,
                                        CHR 0x8C, CHR 0x90, CHR 0xEB, CHR 0xA7, CHR 0xA4,
                                        CHR 0xEC, CHR 0xA4, CHR 0x91, CHR 0xEC, CHR 0xA7,
                                        CHR 0x80], [CHR 0xED, CHR 0x92, CHR 0x88, CHR 0xEC,
                                        CHR 0xA0, CHR 0x88]]"

text \<open>\<^verbatim>\<open>exclude(product_status__in=[...])\<close>: a row without a status stays.\<close>

definition not_excluded :: "product_model \<Rightarrow> bool" where
  "not_excluded p = (case product_status p of None \<Rightarrow> True | Some s \<Rightarrow> s \<notin> set excluded_status)"

definition in_categories :: "int list \<Rightarrow> product_model \<Rightarrow> bool" where
  "in_categories ids p = (case category_id p of None \<Rightarrow> False | Some c \<Rightarrow> c \<in> set ids)"

definition vector_of :: "product_model \<Rightarrow> embedding" where
  "vector_of p = (case detail_spec_vector p of None \<Rightarrow> [] | Some v \<Rightarrow> v)"

text \<open>\<^verbatim>\<open>MallInformationModel.objects.filter(product=product, deleted_at__isnull=True).first()\<close>,
  under the model's ordering by \<^verbatim>\<open>current_price\<close>.\<close>

definition first_mall_info :: "env \<Rightarrow> product_model \<Rightarrow> mall_information_model option" where
  "first_mall_info e p =
     (case sort_key current_price
             (filter (\<lambda>m. mall_product_id m = pk p \<and> \<not> mall_deleted m) (mall_information e)) of
        [] \<Rightarrow> None
      | m # rest \<Rightarrow> Some m)"

text \<open>\<^verbatim>\<open>ShoppingResearchService._vector_search\<close>.\<close>

definition srs_vector_search ::
  "env \<Rightarrow> string \<Rightarrow> int option \<Rightarrow> int option \<Rightarrow> int option \<Rightarrow> error + scored_hit list" where
  "srs_vector_search e search_query' category_id' min_price' max_price' =
     (case create_embedding e search_query' of
        Inl err \<Rightarrow> Inr []
      | Inr query_embedding \<Rightarrow>
          (let queryset = filter (\<lambda>p. \<not> deleted p \<and> detail_spec_vector p \<noteq> None) (products e);
               by_category =
                 (case category_id' of
                    None \<Rightarrow> Inr queryset
                  | Some cid \<Rightarrow>
                      if cid = 0 then Inr queryset
                      else (case get_descendant_category_ids (recursion_limit e)
                                   (categories e) cid of
                              None \<Rightarrow> Inl RecursionError
                            | Some category_ids \<Rightarrow>
                                Inr (filter (in_categories category_ids) queryset)))
           in case by_category of
                Inl err \<Rightarrow> Inl err
              | Inr queryset \<Rightarrow>
                  (let queryset = (case min_price' of
                                     None \<Rightarrow> queryset
                                   | Some lo \<Rightarrow> filter (\<lambda>p. lo \<le> lowest_price p) queryset);
                       queryset = (case max_price' of
                                     None \<Rightarrow> queryset
                                   | Some hi \<Rightarrow> filter (\<lambda>p. lowest_price p \<le> hi) queryset);
                       distance = (\<lambda>p. cosine_distance e (vector_of p) query_embedding);
                       found = take SEARCH_LIMIT (sort_key distance (filter not_excluded queryset))
                   in Inr (map (\<lambda>p. \<lparr>product = p, mall_info = first_mall_info e p,
                                       vector_score = max 0.0 (1.0 - distance p / 2.0)\<rparr>)
                               found))))"

text \<open>\<^verbatim>\<open>product.review_rating or 0\<close>: an absent rating and a rating of zero both
  give zero.\<close>

definition rating_or_zero :: "real option \<Rightarrow> real" where
  "rating_or_zero r = (case r of None \<Rightarrow> 0 | Some x \<Rightarrow> if x = 0 then 0 else x)"

text \<open>\<^verbatim>\<open>ShoppingResearchService._fuse_results\<close>. The dictionary keyed by product id
  is an association list in insertion order.\<close>

definition srs_fuse_results :: "scored_hit list \<Rightarrow> fused_hit list" where
  "srs_fuse_results vector_results =
     (let results_map =
            fold (\<lambda>item m. AList.update (danawa_product_id (product item)) item m)
                 vector_results [];
          fused_results =
            map (\<lambda>(product_id, d).
                   \<lparr>product = product d, mall_info = mall_info d,
                    vector_score = vector_score d,
                    combined_score = VECTOR_WEIGHT * vector_score d\<rparr>)
                results_map
      in sorted_desc (\<lambda>x. (combined_score x, review_count (product x),
                            rating_or_zero (review_rating (product x))))
                     fused_results)"

text \<open>The similarity threshold of \<^verbatim>\<open>get_recommendations\<close> and its relaxation.\<close>

definition select_top :: "fused_hit list \<Rightarrow> fused_hit list" where
  "select_top fused_results =
     (let high_similarity_results =
            filter (\<lambda>r. MIN_SIMILARITY \<le> combined_score r) fused_results;
          high_similarity_results =
            (if length high_similarity_results < TOP_K
             then (if fused_results \<noteq> [] then take TOP_K fused_results else [])
             else high_similarity_results)
      in take TOP_K high_similarity_results)"

subsection \<open>Analysis of the selected products\<close>

text \<open>\<^verbatim>\<open>_batch_analyze_products\<close>: the answer of the one batched call, indexed by
  product code; empty when the call or the decoding fails.\<close>

definition batch_analyze_products ::
  "env \<Rightarrow> string \<Rightarrow> string \<Rightarrow> fused_hit list \<Rightarrow> (string \<Rightarrow> analysis_item option)" where
  "batch_analyze_products e user_query user_needs' prods =
     (if prods = [] then Map.empty
      else (case generate_content e
                   (batch_product_analysis_prompt e user_query user_needs' (map product prods)) of
              Inl err \<Rightarrow> Map.empty
            | Inr (TextObject t) \<Rightarrow> Map.empty
            | Inr (PlainText response) \<Rightarrow>
                if response = [] then Map.empty
                else (case json_results e
                             (case re_search_braces response of Some m \<Rightarrow> m | None \<Rightarrow> response) of
                        None \<Rightarrow> Map.empty
                      | Some items \<Rightarrow> map_of (rev (map (\<lambda>i. (item_product_code i, i)) items)))))"

text \<open>The spec summary joined by slashes, or "no detailed information".\<close>

definition specs_str_of :: "product_model \<Rightarrow> string" where
  "specs_str_of p =
     (if spec_summary p \<noteq> [] then join '' / '' (spec_summary p) else [CHR 0xEC, CHR 0x83,
                                        CHR 0x81, CHR 0xEC, CHR 0x84, CHR 0xB8, CHR 0x20,
                                        CHR 0xEC, CHR 0xA0, CHR 0x95, CHR 0xEB, CHR 0xB3,
                                        CHR 0xB4, CHR 0x20, CHR 0xEC, CHR 0x97, CHR 0x86,
                                        CHR 0xEC, CHR 0x9D, CHR 0x8C])"

text \<open>The spec text of the two per-product prompts, from the dictionary
  \<^verbatim>\<open>{"summary": specs_str}\<close>.\<close>

definition spec_items_str :: "string \<Rightarrow> string" where
  "spec_items_str specs_str =
     (if specs_str \<noteq> [] then ''summary: '' @ specs_str else [CHR 0xEC, CHR 0xA0, CHR 0x95,
                                        CHR 0xEB, CHR 0xB3, CHR 0xB4, CHR 0x20, CHR 0xEC,
                                        CHR 0x97, CHR 0x86, CHR 0xEC, CHR 0x9D, CHR 0x8C])"

text \<open>The sentences the two per-product generators return when their call raises: the
  brand, the genitive particle, the name, and "is a product that fits the user's
  requirements"; the name and "offers excellent performance and value".\<close>

definition failed_reason_sentence :: "string \<Rightarrow> string \<Rightarrow> string" where
  "failed_reason_sentence brand_name product_name =
     brand_name @ [CHR 0xEC, CHR 0x9D, CHR 0x98, CHR 0x20] @ product_name @ [CHR 0xEC, CHR 0x9D,
                                        CHR 0x80, CHR 0x28, CHR 0xEB, CHR 0x8A, CHR 0x94,
                                        CHR 0x29, CHR 0x20, CHR 0xEC, CHR 0x82, CHR 0xAC,
                                        CHR 0xEC, CHR 0x9A, CHR 0xA9, CHR 0xEC, CHR 0x9E,
                                        CHR 0x90, CHR 0xEC, CHR 0x9D, CHR 0x98, CHR 0x20,
                                        CHR 0xEC, CHR 0x9A, CHR 0x94, CHR 0xEA, CHR 0xB5,
                                        CHR 0xAC, CHR 0xEC, CHR 0x82, CHR 0xAC, CHR 0xED,
                                        CHR 0x95, CHR 0xAD, CHR 0xEC, CHR 0x97, CHR 0x90,
                                        CHR 0x20, CHR 0xEC, CHR 0xA0, CHR 0x81, CHR 0xED,
                                        CHR 0x95, CHR 0xA9, CHR 0xED, CHR 0x95, CHR 0x9C,
                                        CHR 0x20, CHR 0xEC, CHR 0xA0, CHR 0x9C, CHR 0xED,
                                        CHR 0x92, CHR 0x88, CHR 0xEC, CHR 0x9E, CHR 0x85,
                                        CHR 0xEB, CHR 0x8B, CHR 0x88, CHR 0xEB, CHR 0x8B,
                                        CHR 0xA4, CHR 0x2E]"

definition failed_summary_sentence :: "string \<Rightarrow> string" where
  "failed_summary_sentence product_name =
     product_name @ [CHR 0xEC, CHR 0x9D, CHR 0x80, CHR 0x28, CHR 0xEB, CHR 0x8A, CHR 0x94,
                     CHR 0x29, CHR 0x20, CHR 0xEC, CHR 0x9A, CHR 0xB0, CHR 0xEC, CHR 0x88,
                     CHR 0x98, CHR 0xED, CHR 0x95, CHR 0x9C, CHR 0x20, CHR 0xEC, CHR 0x84,
                     CHR 0xB1, CHR 0xEB, CHR 0x8A, CHR 0xA5, CHR 0xEA, CHR 0xB3, CHR 0xBC,
                     CHR 0x20, CHR 0xEA, CHR 0xB0, CHR 0x80, CHR 0xEC, CHR 0x84, CHR 0xB1,
                     CHR 0xEB, CHR 0xB9, CHR 0x84, CHR 0xEB, CHR 0xA5, CHR 0xBC, CHR 0x20,
                     CHR 0xEC, CHR 0xA0, CHR 0x9C, CHR 0xEA, CHR 0xB3, CHR 0xB5, CHR 0xED,
                     CHR 0x95, CHR 0xA9, CHR 0xEB, CHR 0x8B, CHR 0x88, CHR 0xEB, CHR 0x8B,
                     CHR 0xA4, CHR 0x2E]"

text \<open>\<^verbatim>\<open>_generate_recommendation_reason\<close>: a call of its own to the language
  model, whose answer is returned stripped; the templated sentence when the call raises
  (or when the answer is not a string, \<^verbatim>\<open>response.strip()\<close> raising).\<close>

definition generate_recommendation_reason ::
  "env \<Rightarrow> string \<Rightarrow> string \<Rightarrow> string \<Rightarrow> string \<Rightarrow> int \<Rightarrow> string \<Rightarrow> string" where
  "generate_recommendation_reason e user_query user_needs' product_name brand_name price_value specs_str =
     (case generate_content e
             (recommendation_reason_prompt e user_query user_needs' product_name brand_name
                price_value (spec_items_str specs_str)) of
        Inl err \<Rightarrow> failed_reason_sentence brand_name product_name
      | Inr (TextObject t) \<Rightarrow> failed_reason_sentence brand_name product_name
      | Inr (PlainText response) \<Rightarrow> strip response)"

text \<open>\<^verbatim>\<open>_generate_ai_review_summary\<close>.\<close>

definition generate_ai_review_summary ::
  "env \<Rightarrow> string \<Rightarrow> string \<Rightarrow> int \<Rightarrow> string \<Rightarrow> string \<Rightarrow> string" where
  "generate_ai_review_summary e product_name brand_name price_value specs_str user_needs' =
     (case generate_content e
             (ai_review_summary_prompt e product_name brand_name price_value
                (spec_items_str specs_str) user_needs') of
        Inl err \<Rightarrow> failed_summary_sentence product_name
      | Inr (TextObject t) \<Rightarrow> failed_summary_sentence product_name
      | Inr (PlainText response) \<Rightarrow> strip response)"

text \<open>The two sentences \<^verbatim>\<open>_analyze_product\<close> puts in when the batched answer has
  an entry for the product but the entry lacks the text: the brand, the name, and "is a
  recommended product that fits the requirements"; the name and "is well rated by its
  users".\<close>

definition missing_reason_sentence :: "product_model \<Rightarrow> string" where
  "missing_reason_sentence p =
     brand p @ '' '' @ name p @ [CHR 0xEC, CHR 0x9D, CHR 0x80, CHR 0x28, CHR 0xEB, CHR 0x8A,
                                 CHR 0x94, CHR 0x29, CHR 0x20, CHR 0xEC, CHR 0x9A, CHR 0x94,
                                 CHR 0xEA, CHR 0xB5, CHR 0xAC, CHR 0xEC, CHR 0x82, CHR 0xAC,
                                 CHR 0xED, CHR 0x95, CHR 0xAD, CHR 0xEC, CHR 0x97, CHR 0x90,
                                 CHR 0x20, CHR 0xEC, CHR 0xA0, CHR 0x81, CHR 0xED, CHR 0x95,
                                 CHR 0xA9, CHR 0xED, CHR 0x95, CHR 0x9C, CHR 0x20, CHR 0xEC,
                                 CHR 0xB6, CHR 0x94, CHR 0xEC, CHR 0xB2, CHR 0x9C, CHR 0x20,
                                 CHR 0xEC, CHR 0xA0, CHR 0x9C, CHR 0xED, CHR 0x92, CHR 0x88,
                                 CHR 0xEC, CHR 0x9E, CHR 0x85, CHR 0xEB, CHR 0x8B, CHR 0x88,
                                 CHR 0xEB, CHR 0x8B, CHR 0xA4, CHR 0x2E]"

definition missing_summary_sentence :: "product_model \<Rightarrow> string" where
  "missing_summary_sentence p =
     name p @ [CHR 0xEC, CHR 0x9D, CHR 0x80, CHR 0x28, CHR 0xEB, CHR 0x8A, CHR 0x94, CHR 0x29,
               CHR 0x20, CHR 0xEC, CHR 0x82, CHR 0xAC, CHR 0xEC, CHR 0x9A, CHR 0xA9, CHR 0xEC,
               CHR 0x9E, CHR 0x90, CHR 0xEB, CHR 0xB6, CHR 0x84, CHR 0xEB, CHR 0x93, CHR 0xA4,
               CHR 0xEA, CHR 0xBB, CHR 0x98, CHR 0x20, CHR 0xEC, CHR 0xA2, CHR 0x8B, CHR 0xEC,
               CHR 0x9D, CHR 0x80, CHR 0x20, CHR 0xED, CHR 0x8F, CHR 0x89, CHR 0xEA, CHR 0xB0,
               CHR 0x80, CHR 0xEB, CHR 0xA5, CHR 0xBC, CHR 0x20, CHR 0xEB, CHR 0xB0, CHR 0x9B,
               CHR 0xEA, CHR 0xB3, CHR 0xA0, CHR 0x20, CHR 0xEC, CHR 0x9E, CHR 0x88, CHR 0xEC,
               CHR 0x8A, CHR 0xB5, CHR 0xEB, CHR 0x8B, CHR 0x88, CHR 0xEB, CHR 0x8B, CHR 0xA4,
               CHR 0x2E]"

text \<open>\<^verbatim>\<open>if not text\<close> on an entry of the answer: absent, null or empty.\<close>

definition text_or :: "string option \<Rightarrow> string \<Rightarrow> string" where
  "text_or t d = (case t of None \<Rightarrow> d | Some s \<Rightarrow> if s = [] then d else s)"

definition calculate_performance_score :: "product_model \<Rightarrow> real \<Rightarrow> real" where
  "calculate_performance_score p combined =
     (let base_score = combined;
          rating_score = rating_or_zero (review_rating p) / 25;
          review_score = min (real_of_int (review_count p) / 1000) 0.1
      in min 1.0 (base_score * 0.7 + rating_score + review_score))"

record product_out =
  out_similarity_score :: real
  out_product_image_url :: "string option"
  out_product_name :: string
  out_product_code :: int
  out_recommendation_reason :: string
  out_price :: int
  out_performance_score :: real
  out_product_specs :: string
  out_ai_review_summary :: string
  out_product_detail_url :: "string option"
  out_match_rank :: nat
  out_is_lowest_price :: bool

text \<open>\<^verbatim>\<open>min(all_prices)\<close> of a list that is not empty.\<close>

definition min_list :: "int list \<Rightarrow> int" where
  "min_list xs = fold min (tl xs) (hd xs)"

text \<open>The two texts of \<^verbatim>\<open>_analyze_product\<close>: from the entry of the batched answer
  when there is one, from two calls of their own to the language model otherwise.\<close>

definition recommendation_texts ::
  "env \<Rightarrow> product_model \<Rightarrow> string \<Rightarrow> string \<Rightarrow> analysis_item option \<Rightarrow> string \<times> string" where
  "recommendation_texts e p user_query user_needs' pre_analysis =
     (case pre_analysis of
        Some a \<Rightarrow>
          (text_or (item_recommendation_reason a) (missing_reason_sentence p),
           text_or (item_ai_review_summary a) (missing_summary_sentence p))
      | None \<Rightarrow>
          (generate_recommendation_reason e user_query user_needs' (name p) (brand p)
             (lowest_price p) (specs_str_of p),
           generate_ai_review_summary e (name p) (brand p) (lowest_price p) (specs_str_of p)
             user_needs'))"

text \<open>\<^verbatim>\<open>_analyze_product\<close>. \<^verbatim>\<open>int(product.danawa_product_id)\<close> is its one
  step that can raise.\<close>

definition analyze_product ::
  "env \<Rightarrow> fused_hit \<Rightarrow> string \<Rightarrow> string \<Rightarrow> nat \<Rightarrow> int list \<Rightarrow> analysis_item option
     \<Rightarrow> error + product_out" where
  "analyze_product e product_data user_query user_needs' rank all_prices pre_analysis =
     (let p = product product_data;
          m = mall_info product_data;
          combined = combined_score product_data;
          specs_str = specs_str_of p;
          (recommendation_reason, ai_review_summary) =
            recommendation_texts e p user_query user_needs' pre_analysis;
          performance = calculate_performance_score p combined;
          lowest = (if all_prices \<noteq> [] then lowest_price p = min_list all_prices else False)
      in case py_int e (danawa_product_id p) of
           None \<Rightarrow> Inl ValueError
         | Some code \<Rightarrow>
             Inr \<lparr>out_similarity_score = round2 combined,
                  out_product_image_url = (case m of None \<Rightarrow> None
                                           | Some mi \<Rightarrow> representative_image_url mi),
                  out_product_name = name p,
                  out_product_code = code,
                  out_recommendation_reason = recommendation_reason,
                  out_price = lowest_price p,
                  out_performance_score = round2 performance,
                  out_product_specs = specs_str,
                  out_ai_review_summary = ai_review_summary,
                  out_product_detail_url = (case m of None \<Rightarrow> None
                                            | Some mi \<Rightarrow> product_page_url mi),
                  out_match_rank = rank,
                  out_is_lowest_price = lowest\<rparr>)"

text \<open>A loop whose body may raise: the first exception ends it.\<close>

fun collect :: "(error + 'a) list \<Rightarrow> error + 'a list" where
  "collect [] = Inr []"
| "collect (x # xs) =
     (case x of
        Inl err \<Rightarrow> Inl err
      | Inr v \<Rightarrow> (case collect xs of Inl err \<Rightarrow> Inl err | Inr vs \<Rightarrow> Inr (v # vs)))"

record srs_response =
  response_user_query :: string
  response_product :: "product_out list"

text \<open>\<^verbatim>\<open>get_recommendations\<close> from the analysed intent on.\<close>

definition srs_retrieve :: "env \<Rightarrow> intent \<Rightarrow> error + fused_hit list" where
  "srs_retrieve e i =
     (let cid = srs_resolve_category e i;
          (lo, hi) = validate_price_range (min_price i) (max_price i)
      in case srs_vector_search e (search_query i) cid lo hi of
           Inl err \<Rightarrow> Inl err
         | Inr vector_results \<Rightarrow> Inr (srs_fuse_results vector_results))"

definition srs_assemble :: "env \<Rightarrow> string \<Rightarrow> intent \<Rightarrow> fused_hit list \<Rightarrow> error + srs_response" where
  "srs_assemble e user_query i fused_results =
     (let top_products = select_top fused_results
      in if top_products = [] then Inr \<lparr>response_user_query = user_query, response_product = []\<rparr>
         else (let all_prices = map (\<lambda>p. lowest_price (product p)) top_products;
                   analysis_map = batch_analyze_products e user_query (user_needs i) top_products
               in case collect
                         (map (\<lambda>(rank, p_data).
                                 analyze_product e p_data user_query (user_needs i) rank all_prices
                                   (analysis_map (danawa_product_id (product p_data))))
                              (enumerate1 top_products)) of
                    Inl err \<Rightarrow> Inl err
                  | Inr prods \<Rightarrow>
                      Inr \<lparr>response_user_query = user_query, response_product = prods\<rparr>))"

text \<open>\<^verbatim>\<open>ShoppingResearchService.get_recommendations\<close>.\<close>

definition srs_get_recommendations ::
  "env \<Rightarrow> cache \<Rightarrow> nat \<Rightarrow> string \<Rightarrow> string \<Rightarrow> survey list \<Rightarrow> error + srs_response" where
  "srs_get_recommendations e c now search_id user_query survey_contents =
     (let cached = validate_search_id c now search_id;
          survey_contents = fill_question_texts cached survey_contents;
          i = analyze_survey e user_query survey_contents
      in case srs_retrieve e i of
           Inl err \<Rightarrow> Inl err
         | Inr fused_results \<Rightarrow> srs_assemble e user_query i fused_results)"

section \<open>The single-step flow\<close>

definition MIN_CAT_SIMILARITY :: real where "MIN_CAT_SIMILARITY = 0.3"

subsection \<open>Intent extraction\<close>

text \<open>The two substitutions that delete code fences: \<^verbatim>\<open>re.sub(r'```json\s*|```', '', s)\<close>
  of \<^verbatim>\<open>_extract_intent_pro\<close> (the flag set: white space after \<^verbatim>\<open>```json\<close> goes
  too) and \<^verbatim>\<open>re.sub(r'```(?:json)?', '', s)\<close> of \<^verbatim>\<open>_rerank_with_fallback\<close>.\<close>

function remove_fences :: "bool \<Rightarrow> string \<Rightarrow> string" where
  "remove_fences ws s =
     (if s = [] then []
      else if startswith s ''```''
      then (if startswith (drop 3 s) ''json''
            then remove_fences ws (if ws then lstrip (drop 7 s) else drop 7 s)
            else remove_fences ws (drop 3 s))
      else hd s # remove_fences ws (tl s))"
  by pat_completeness auto
termination
proof (relation "measure (\<lambda>(ws, s). length s)")
  show "wf (measure (\<lambda>(ws, s). length s))" by simp
next
  fix ws :: bool and s :: string
  assume "s \<noteq> []"
  have shorter: "length (strip_prefix ps t) \<le> length t" for ps t
  proof (induction ps t rule: strip_prefix.induct)
    case (1 ps t)
    show ?case
    proof (cases "find (\<lambda>w. w \<noteq> [] \<and> startswith t w) ps")
      case None
      then show ?thesis by (simp add: strip_prefix.simps [of ps t])
    next
      case (Some w)
      from 1 [OF Some] have "length (strip_prefix ps (drop (length w) t)) \<le> length t"
        by simp
      with Some show ?thesis by (simp add: strip_prefix.simps [of ps t])
    qed
  qed
  have "length (lstrip (drop 7 s)) \<le> length (drop 7 s)"
    unfolding lstrip_def by (rule shorter)
  with \<open>s \<noteq> []\<close>
  show "((ws, if ws then lstrip (drop 7 s) else drop 7 s), (ws, s))
          \<in> measure (\<lambda>(ws, s). length s)"
    by (cases s) auto
next
  fix ws :: bool and s :: string
  assume "s \<noteq> []"
  then show "((ws, drop 3 s), (ws, s)) \<in> measure (\<lambda>(ws, s). length s)"
    by (cases s) auto
next
  fix ws :: bool and s :: string
  assume "s \<noteq> []"
  then show "((ws, tl s), (ws, s)) \<in> measure (\<lambda>(ws, s). length s)"
    by (cases s) auto
qed

declare remove_fences.simps [simp del]

text \<open>The dictionary \<^verbatim>\<open>_extract_intent_pro\<close> returns when it fails: only the product
  category, set to the Korean word for "other".\<close>

definition degraded_intent :: raw_intent where
  "degraded_intent =
     \<lparr>raw_product_category = Some [CHR 0xEA, CHR 0xB8, CHR 0xB0, CHR 0xED, CHR 0x83,
                                        CHR 0x80], raw_search_query = None, raw_keywords = None,
      raw_min_price = None, raw_max_price = None, raw_user_needs = None,
      raw_analysis_message = None\<rparr>"

text \<open>The string of category names \<^verbatim>\<open>__init__\<close> prepares for the prompt.\<close>

definition category_list_str :: "env \<Rightarrow> string" where
  "category_list_str e =
     join '', '' (map cat_name (filter (\<lambda>c. \<not> cat_deleted c) (categories e)))"

text \<open>\<^verbatim>\<open>_extract_intent_pro\<close>. It reads \<^verbatim>\<open>resp.text\<close>; on a plain string that
  raises \<^verbatim>\<open>AttributeError\<close>, which the handler turns into the degraded intent.\<close>

definition extract_intent_pro :: "env \<Rightarrow> string \<Rightarrow> raw_intent" where
  "extract_intent_pro e user_query =
     (case generate_content e (intent_extraction_prompt e (category_list_str e) user_query) of
        Inl err \<Rightarrow> degraded_intent
      | Inr (PlainText s) \<Rightarrow> degraded_intent
      | Inr (TextObject t) \<Rightarrow>
          (case re_search_braces (remove_fences True t) of
             None \<Rightarrow> degraded_intent
           | Some m \<Rightarrow> (case json_intent e m of None \<Rightarrow> degraded_intent | Some res \<Rightarrow> res)))"

subsection \<open>Category resolution\<close>

text \<open>The keyword override of \<^verbatim>\<open>get_recommendations\<close>: the category id and name
  fixed by the upper-cased query, if any. CPU or the Korean word for "processor" gives 21,
  "graphics card" or GPU 24, "monitor" 18, "notebook" 2, tried in this order.\<close>

definition keyword_override :: "string \<Rightarrow> (int \<times> string) option" where
  "keyword_override user_query =
     (let upper_query = upper user_query
      in if contains upper_query ''CPU'' \<or> contains upper_query [CHR 0xED, CHR 0x94,
                                        CHR 0x84, CHR 0xEB, CHR 0xA1, CHR 0x9C, CHR 0xEC,
                                        CHR 0x84, CHR 0xB8, CHR 0xEC, CHR 0x84, CHR 0x9C]
         then Some (21, ''CPU'')
         else if contains upper_query [CHR 0xEA, CHR 0xB7, CHR 0xB8, CHR 0xEB, CHR 0x9E,
                                       CHR 0x98, CHR 0xED, CHR 0x94, CHR 0xBD, CHR 0xEC,
                                       CHR 0xB9, CHR 0xB4, CHR 0xEB, CHR 0x93, CHR 0x9C] \<or> contains upper_query ''GPU''
         then Some (24, [CHR 0xEA, CHR 0xB7, CHR 0xB8, CHR 0xEB, CHR 0x9E, CHR 0x98, CHR 0xED,
                         CHR 0x94, CHR 0xBD, CHR 0xEC, CHR 0xB9, CHR 0xB4, CHR 0xEB, CHR 0x93,
                         CHR 0x9C])
         else if contains upper_query [CHR 0xEB, CHR 0xAA, CHR 0xA8, CHR 0xEB, CHR 0x8B,
                                       CHR 0x88, CHR 0xED, CHR 0x84, CHR 0xB0]
         then Some (18, [CHR 0xEB, CHR 0xAA, CHR 0xA8, CHR 0xEB, CHR 0x8B, CHR 0x88, CHR 0xED,
                         CHR 0x84, CHR 0xB0])
         else if contains upper_query [CHR 0xEB, CHR 0x85, CHR 0xB8, CHR 0xED, CHR 0x8A,
                                       CHR 0xB8, CHR 0xEB, CHR 0xB6, CHR 0x81]
         then Some (2, [CHR 0xEB, CHR 0x85, CHR 0xB8, CHR 0xED, CHR 0x8A, CHR 0xB8, CHR 0xEB,
                        CHR 0xB6, CHR 0x81])
         else None)"

text \<open>\<^verbatim>\<open>CategoryModel.objects.filter(name=n, deleted_at__isnull=True).first()\<close>.\<close>

definition exact_match :: "env \<Rightarrow> string \<Rightarrow> category_model option" where
  "exact_match e n = find (\<lambda>c. cat_name c = n \<and> \<not> cat_deleted c) (categories e)"

text \<open>Steps 1 to 3 of \<^verbatim>\<open>get_recommendations\<close>: the category name shown, and the
  category id (\<open>None\<close> when nothing was resolved).\<close>

definition llm_resolve_category :: "env \<Rightarrow> string \<Rightarrow> raw_intent \<Rightarrow> string \<times> int option" where
  "llm_resolve_category e user_query i =
     (let llm_category_name =
            strip (case raw_product_category i of Some n \<Rightarrow> n | None \<Rightarrow> [
                                        CHR 0xEA, CHR 0xB8, CHR 0xB0, CHR 0xED, CHR 0x83,
                                        CHR 0x80]);
          (llm_category_name, cid) =
            (case keyword_override user_query of
               Some (k, n) \<Rightarrow> (n, Some k)
             | None \<Rightarrow> (llm_category_name, None))
      in if (cid = None \<or> cid = Some 0) \<and> llm_category_name \<noteq> []
            \<and> llm_category_name \<noteq> [CHR 0xEA, CHR 0xB8, CHR 0xB0, CHR 0xED, CHR 0x83,
                                        CHR 0x80]
         then (case exact_match e llm_category_name of
                 Some c \<Rightarrow> (llm_category_name, Some (cat_id c))
               | None \<Rightarrow>
                   (case best_match e llm_category_name MIN_CAT_SIMILARITY of
                      Some c \<Rightarrow> (llm_category_name, Some (cat_id c))
                    | None \<Rightarrow> (llm_category_name, cid)))
         else (llm_category_name, cid))"

text \<open>\<^verbatim>\<open>self._get_descendant_category_ids(category_id) if category_id else []\<close>.\<close>

definition target_category_ids :: "env \<Rightarrow> int option \<Rightarrow> error + int list" where
  "target_category_ids e cid =
     (case cid of
        None \<Rightarrow> Inr []
      | Some k \<Rightarrow>
          if k = 0 then Inr []
          else (case get_descendant_category_ids (recursion_limit e) (categories e) k of
                  None \<Rightarrow> Inl RecursionError
                | Some ids \<Rightarrow> Inr ids))"

subsection \<open>Retrieval\<close>

record llm_hit = hit +
  score :: real

text \<open>\<^verbatim>\<open>_get_mall_map\<close>, read at one product: its latest mall row.\<close>

definition latest_mall_info :: "env \<Rightarrow> product_model \<Rightarrow> mall_information_model option" where
  "latest_mall_info e p =
     (case sorted_desc created_at
             (filter (\<lambda>m. mall_product_id m = pk p \<and> \<not> mall_deleted m) (mall_information e)) of
        [] \<Rightarrow> None
      | m # rest \<Rightarrow> Some m)"

text \<open>The keywords of the safety lock: CPU, and the Korean words for "notebook" and
  "graphics card".\<close>

definition hardware_keywords :: "string list" where
  "hardware_keywords = [''CPU'', [CHR 0xEB, CHR 0x85, CHR 0xB8, CHR 0xED, CHR 0x8A, CHR 0xB8,
                                  CHR 0xEB, CHR 0xB6, CHR 0x81], [CHR 0xEA, CHR 0xB7, CHR 0xB8,
                                        CHR 0xEB, CHR 0x9E, CHR 0x98, CHR 0xED, CHR 0x94,
                                        CHR 0xBD, CHR 0xEC, CHR 0xB9, CHR 0xB4, CHR 0xEB,
                                        CHR 0x93, CHR 0x9C]]"

text \<open>\<^verbatim>\<open>LLMRecommendationService._vector_search\<close>. The embedding is made first, and
  outside any handler.\<close>

definition llm_vector_search :: "env \<Rightarrow> string \<Rightarrow> int list \<Rightarrow> error + llm_hit list" where
  "llm_vector_search e query category_ids =
     (case create_embedding e query of
        Inl err \<Rightarrow> Inl err
      | Inr query_embedding \<Rightarrow>
          (let qs = filter (\<lambda>p. \<not> deleted p \<and> detail_spec_vector p \<noteq> None) (products e);
               distance = (\<lambda>p. l2_distance e (vector_of p) query_embedding);
               search = (\<lambda>qs.
                  (let p_list = take 20 (sort_key distance (filter not_excluded qs))
                   in Inr (map (\<lambda>p. \<lparr>product = p, mall_info = latest_mall_info e p,
                                       score = max 0 (1 - distance p / 2)\<rparr>)
                               p_list)))
           in if category_ids \<noteq> [] then search (filter (in_categories category_ids) qs)
              else if list_ex (\<lambda>k. contains query k) hardware_keywords then Inr []
              else search qs))"

text \<open>\<^verbatim>\<open>_keyword_search\<close>.\<close>

definition keyword_search :: "env \<Rightarrow> string list \<Rightarrow> int list \<Rightarrow> llm_hit list" where
  "keyword_search e kws category_ids =
     (if kws = [] then []
      else (let qs = filter (\<lambda>p. \<not> deleted p) (products e);
                qs = (if category_ids \<noteq> [] then filter (in_categories category_ids) qs else qs);
                sim = (\<lambda>p. trigram_similarity e (name p) (join '' '' kws));
                p_list = take 20 (sorted_desc sim (filter (\<lambda>p. 0.05 < sim p) qs))
            in map (\<lambda>p. \<lparr>product = p, mall_info = latest_mall_info e p, score = sim p\<rparr>)
                   p_list))"

subsection \<open>Fusion\<close>

definition pid :: "llm_hit \<Rightarrow> string" where
  "pid i = danawa_product_id (product i)"

text \<open>One round of the loop over the keyword results.\<close>

definition fuse_step :: "llm_hit \<Rightarrow> (string \<times> llm_hit) list \<Rightarrow> (string \<times> llm_hit) list" where
  "fuse_step i res =
     (case map_of res (pid i) of
        Some r \<Rightarrow> AList.update (pid i) (r\<lparr>score := score r * 0.7 + score i * 0.3\<rparr>) res
      | None \<Rightarrow> AList.update (pid i) i res)"

text \<open>\<^verbatim>\<open>LLMRecommendationService._fuse_results\<close>. The dictionary is an association
  list in insertion order.\<close>

definition llm_fuse_results :: "llm_hit list \<Rightarrow> llm_hit list \<Rightarrow> llm_hit list" where
  "llm_fuse_results vec key =
     (let res = fold (\<lambda>i m. AList.update (pid i) i m) vec [];
          res = fold fuse_step key res
      in sorted_desc score (map snd res))"

subsection \<open>Re-ranking\<close>

text \<open>\<^verbatim>\<open>_generate_fallback_reason\<close>: the brand, followed by "'s highly reliable
  model, a product that faithfully meets the performance the user asks for".\<close>

definition generate_fallback_reason :: "product_model \<Rightarrow> string" where
  "generate_fallback_reason p =
     brand p @ [CHR 0xEC, CHR 0x9D, CHR 0x98, CHR 0x20, CHR 0xEC, CHR 0x8B, CHR 0xA0, CHR 0xEB,
                CHR 0xA2, CHR 0xB0, CHR 0xEB, CHR 0x8F, CHR 0x84, CHR 0x20, CHR 0xEB, CHR 0x86,
                CHR 0x92, CHR 0xEC, CHR 0x9D, CHR 0x80, CHR 0x20, CHR 0xEB, CHR 0xAA, CHR 0xA8,
                CHR 0xEB, CHR 0x8D, CHR 0xB8, CHR 0xEB, CHR 0xA1, CHR 0x9C, CHR 0x2C, CHR 0x20,
                CHR 0xEC, CHR 0x82, CHR 0xAC, CHR 0xEC, CHR 0x9A, CHR 0xA9, CHR 0xEC, CHR 0x9E,
                CHR 0x90, CHR 0xEC, CHR 0x9D, CHR 0x98, CHR 0x20, CHR 0xEC, CHR 0x9A, CHR 0x94,
                CHR 0xEA, CHR 0xB5, CHR 0xAC, CHR 0x20, CHR 0xEC, CHR 0x84, CHR 0xB1, CHR 0xEB,
                CHR 0x8A, CHR 0xA5, CHR 0xEC, CHR 0x9D, CHR 0x84, CHR 0x20, CHR 0xEC, CHR 0xB6,
                CHR 0xA9, CHR 0xEC, CHR 0x8B, CHR 0xA4, CHR 0xED, CHR 0x9E, CHR 0x88, CHR 0x20,
                CHR 0xEB, CHR 0xA7, CHR 0x8C, CHR 0xEC, CHR 0xA1, CHR 0xB1, CHR 0xED, CHR 0x95,
                CHR 0x98, CHR 0xEB, CHR 0x8A, CHR 0x94, CHR 0x20, CHR 0xEC, CHR 0xA0, CHR 0x9C,
                CHR 0xED, CHR 0x92, CHR 0x88, CHR 0xEC, CHR 0x9E, CHR 0x85, CHR 0xEB, CHR 0x8B,
                CHR 0x88, CHR 0xEB, CHR 0x8B, CHR 0xA4, CHR 0x2E]"

text \<open>The prompt of \<^verbatim>\<open>_rerank_with_fallback\<close>.\<close>

definition rerank_prompt :: "env \<Rightarrow> string \<Rightarrow> raw_intent \<Rightarrow> llm_hit list \<Rightarrow> string" where
  "rerank_prompt e user_query i fused_results =
     combined_recommendation_prompt e user_query
       (case raw_user_needs i of Some n \<Rightarrow> n | None \<Rightarrow> user_query)
       (case raw_product_category i of Some c \<Rightarrow> c | None \<Rightarrow> [CHR 0xEC,
                                        CHR 0x83, CHR 0x81, CHR 0xED, CHR 0x92, CHR 0x88])
       (map product fused_results)"

text \<open>The \<^verbatim>\<open>try\<close> block of \<^verbatim>\<open>_rerank_with_fallback\<close>: the reasons by product
  code, empty when the call raises or no JSON is found.\<close>

definition reason_map_of ::
  "env \<Rightarrow> string \<Rightarrow> raw_intent \<Rightarrow> llm_hit list \<Rightarrow> (string \<Rightarrow> string option option)" where
  "reason_map_of e user_query i fused_results =
     (case generate_content e (rerank_prompt e user_query i fused_results) of
        Inl err \<Rightarrow> Map.empty
      | Inr resp \<Rightarrow>
          (let raw_text = (case resp of TextObject t \<Rightarrow> t | PlainText s \<Rightarrow> s);
               clean_text = strip (remove_fences False raw_text)
           in case re_search_braces clean_text of
                None \<Rightarrow> Map.empty
              | Some m \<Rightarrow>
                  (case json_results e m of
                     None \<Rightarrow> Map.empty
                   | Some results \<Rightarrow>
                       map_of (rev (map (\<lambda>r. (item_product_code r,
                                               item_recommendation_reason r)) results)))))"

record recommended_product =
  rec_product_code :: string
  rec_name :: string
  rec_brand :: string
  rec_price :: int
  rec_thumbnail_url :: "string option"
  rec_recommendation_reason :: string
  rec_specs :: "(string \<times> string) list"
  rec_review_count :: int
  rec_review_rating :: "real option"

text \<open>\<^verbatim>\<open>reason_map.get(p_id) or self._generate_fallback_reason(p)\<close>.\<close>

definition final_reason :: "(string \<Rightarrow> string option option) \<Rightarrow> product_model \<Rightarrow> string" where
  "final_reason reason_map p =
     (case reason_map (danawa_product_id p) of
        Some (Some r) \<Rightarrow> if r = [] then generate_fallback_reason p else r
      | _ \<Rightarrow> generate_fallback_reason p)"

text \<open>\<^verbatim>\<open>_rerank_with_fallback\<close>.\<close>

definition rerank_with_fallback ::
  "env \<Rightarrow> string \<Rightarrow> raw_intent \<Rightarrow> llm_hit list \<Rightarrow> recommended_product list" where
  "rerank_with_fallback e user_query i fused_results =
     (let reason_map = reason_map_of e user_query i fused_results
      in map (\<lambda>item.
                (let p = product item
                 in \<lparr>rec_product_code = danawa_product_id p,
                     rec_name = name p,
                     rec_brand = brand p,
                     rec_price = lowest_price p,
                     rec_thumbnail_url = (case mall_info item of None \<Rightarrow> None
                                          | Some mi \<Rightarrow> representative_image_url mi),
                     rec_recommendation_reason = final_reason reason_map p,
                     rec_specs = spec p,
                     rec_review_count = review_count p,
                     rec_review_rating = review_rating p\<rparr>))
             (take TOP_K fused_results))"

subsection \<open>The request\<close>

record llm_result =
  analysis_message :: string
  recommended_products :: "recommended_product list"

text \<open>\<^verbatim>\<open>LLMRecommendationService.get_recommendations\<close>. The two searches run on two
  threads and both results are awaited, the vector search's first.\<close>

definition llm_get_recommendations :: "env \<Rightarrow> string \<Rightarrow> error + llm_result" where
  "llm_get_recommendations e user_query =
     (let i = extract_intent_pro e user_query;
          (llm_category_name, cid) = llm_resolve_category e user_query i
      in case target_category_ids e cid of
           Inl err \<Rightarrow> Inl err
         | Inr ids \<Rightarrow>
             (case llm_vector_search e
                     (case raw_search_query i of Some q \<Rightarrow> q | None \<Rightarrow> user_query) ids of
                Inl err \<Rightarrow> Inl err
              | Inr vector_results \<Rightarrow>
                  (let keyword_results =
                         keyword_search e
                           (case raw_keywords i of Some k \<Rightarrow> k | None \<Rightarrow> [user_query]) ids;
                       fused_results = take 8 (llm_fuse_results vector_results keyword_results)
                   in if fused_results = []
                      then Inr \<lparr>analysis_message =
                                  [CHR 0x27] @ llm_category_name
                                  @ [CHR 0x27, CHR 0x20, CHR 0xEC, CHR 0xB9, CHR 0xB4, CHR 0xED,
                                     CHR 0x85, CHR 0x8C, CHR 0xEA, CHR 0xB3, CHR 0xA0, CHR 0xEB,
                                     CHR 0xA6, CHR 0xAC, CHR 0xEC, CHR 0x97, CHR 0x90, CHR 0xEC,
                                     CHR 0x84, CHR 0x9C, CHR 0x20, CHR 0xEC, CHR 0xA1, CHR 0xB0,
                                     CHR 0xEA, CHR 0xB1, CHR 0xB4, CHR 0xEC, CHR 0x97, CHR 0x90,
                                     CHR 0x20, CHR 0xEB, CHR 0xA7, CHR 0x9E, CHR 0xEB, CHR 0x8A,
                                     CHR 0x94, CHR 0x20, CHR 0xEC, CHR 0x83, CHR 0x81, CHR 0xED,
                                     CHR 0x92, CHR 0x88, CHR 0xEC, CHR 0x9D, CHR 0x84, CHR 0x20,
                                     CHR 0xEC, CHR 0xB0, CHR 0xBE, CHR 0xEC, CHR 0xA7, CHR 0x80,
                                     CHR 0x20, CHR 0xEB, CHR 0xAA, CHR 0xBB, CHR 0xED, CHR 0x96,
                                     CHR 0x88, CHR 0xEC, CHR 0x8A, CHR 0xB5, CHR 0xEB, CHR 0x8B,
                                     CHR 0x88, CHR 0xEB, CHR 0x8B, CHR 0xA4, CHR 0x2E],
                                recommended_products = []\<rparr>
                      else Inr \<lparr>analysis_message =
                                  (case raw_analysis_message i of
                                     Some m \<Rightarrow> m
                                   | None \<Rightarrow> llm_category_name @ [CHR 0x20, CHR 0xEC,
                                        CHR 0xB6, CHR 0x94, CHR 0xEC, CHR 0xB2, CHR 0x9C,
                                        CHR 0x20, CHR 0xEA, CHR 0xB2, CHR 0xB0, CHR 0xEA,
                                        CHR 0xB3, CHR 0xBC, CHR 0xEC, CHR 0x9E, CHR 0x85,
                                        CHR 0xEB, CHR 0x8B, CHR 0x88, CHR 0xEB, CHR 0x8B,
                                        CHR 0xA4, CHR 0x2E]),
                                recommended_products =
                                  rerank_with_fallback e user_query i fused_results\<rparr>)))"

section \<open>A small store for concrete runs\<close>

definition laptop :: product_model where
  "laptop =
     \<lparr>pk = 1, danawa_product_id = ''1001'', name = ''i5 laptop'', brand = ''Acme'',
      lowest_price = 900000, category_id = Some 2, product_status = None, deleted = False,
      detail_spec_vector = Some [1, 0], review_count = 10000, review_rating = Some 5,
      spec_summary = [''i5'', ''16GB''], spec = []\<rparr>"

definition example_categories :: "category_model list" where
  "example_categories =
     [\<lparr>cat_id = 1, cat_name = ''computers'', parent_id = None, cat_deleted = False\<rparr>,
      \<lparr>cat_id = 2, cat_name = ''laptops'', parent_id = Some 1, cat_deleted = False\<rparr>,
      \<lparr>cat_id = 3, cat_name = ''netbooks'', parent_id = Some 2, cat_deleted = False\<rparr>,
      \<lparr>cat_id = 4, cat_name = ''retired'', parent_id = Some 1, cat_deleted = True\<rparr>]"

text \<open>A world with one product, in which every call to the language model raises and the
  embedding provider answers.\<close>

definition example_env :: env where
  "example_env =
     \<lparr>generate_content = (\<lambda>prompt. Inl ProviderError),
      create_embedding = (\<lambda>text. Inr [1, 0]),
      products = [laptop],
      categories = example_categories,
      mall_information = [],
      trigram_similarity = (\<lambda>a b. 1 / 2),
      cosine_distance = (\<lambda>a b. 1 / 2),
      l2_distance = (\<lambda>a b. 1 / 2),
      json_intent = (\<lambda>s. None),
      json_results = (\<lambda>s. None),
      json_questions = (\<lambda>s. None),
      py_int = (\<lambda>s. if s = ''1001'' then Some 1001 else None),
      question_generation_prompt = (\<lambda>q. ''questions''),
      shopping_research_analysis_prompt = (\<lambda>q s. ''analysis''),
      batch_product_analysis_prompt = (\<lambda>q n ps. ''batch''),
      recommendation_reason_prompt = (\<lambda>q n pn b pr s. ''reason''),
      ai_review_summary_prompt = (\<lambda>pn b pr s n. ''summary''),
      intent_extraction_prompt = (\<lambda>cs q. ''intent''),
      combined_recommendation_prompt = (\<lambda>q n c ps. ''combined''),
      recursion_limit = 1000\<rparr>"

text \<open>A fused candidate for the one product, with a given score.\<close>

definition hit_with :: "real \<Rightarrow> fused_hit" where
  "hit_with s = \<lparr>product = laptop, mall_info = None, vector_score = s, combined_score = s\<rparr>"

text \<open>An intent whose price bounds are the wrong way round; the one product costs 900,000,
  outside both.\<close>

definition inverted_intent :: intent where
  "inverted_intent =
     \<lparr>product_category = None, search_query = ''laptop'', keyword_list = [''laptop''],
      min_price = Some 2000000, max_price = Some 500000, user_needs = ''laptop''\<rparr>"

text \<open>What the language model's answer decodes to when it names a lower bound of 0 and an
  upper bound of 0, and a world in which the survey analysis receives that answer.\<close>

definition zero_priced :: raw_intent where
  "zero_priced =
     \<lparr>raw_product_category = None, raw_search_query = Some ''laptop'', raw_keywords = None,
      raw_min_price = Some 0, raw_max_price = Some 0, raw_user_needs = None,
      raw_analysis_message = None\<rparr>"

definition zero_priced_env :: env where
  \<open>zero_priced_env =
     example_env
       \<lparr>generate_content :=
          (\<lambda>prompt. if prompt = ''analysis''
                     then Inr (PlainText
                            ''Here: {"search_query": "laptop", "min_price": 0, "max_price": 0}'')
                     else Inl ProviderError),
        json_intent :=
          (\<lambda>s. if s = ''{"search_query": "laptop", "min_price": 0, "max_price": 0}''
                then Some zero_priced else None)\<rparr>\<close>

text \<open>The world in which the embedding provider raises; \<^verbatim>\<open>create_embedding\<close>
  turns every failure into a \<^verbatim>\<open>ValueError\<close>.\<close>

definition no_embedding_env :: env where
  "no_embedding_env = example_env\<lparr>create_embedding := (\<lambda>text. Inl ValueError)\<rparr>"



text \<open>A world in which the batched analysis raises and the calls per product answer.\<close>

definition chatty_env :: env where
  "chatty_env =
     example_env
       \<lparr>generate_content :=
          (\<lambda>prompt. if prompt = ''reason'' then Inr (PlainText ''Great for study. '')
                     else if prompt = ''summary'' then Inr (PlainText ''Buyers like it.'')
                     else Inl ProviderError)\<rparr>"

text \<open>Four survey answers as the request serializer hands them over when the client
  sends no question texts: the text defaults to the empty string.\<close>

definition bare_answers :: "survey list" where
  "bare_answers =
     [\<lparr>s_question_id = 1, s_question = Some [], s_answer = ''gaming''\<rparr>,
      \<lparr>s_question_id = 2, s_question = Some [], s_answer = ''under 1500000''\<rparr>,
      \<lparr>s_question_id = 3, s_question = Some [], s_answer = ''refresh rate''\<rparr>,
      \<lparr>s_question_id = 4, s_question = Some [], s_answer = ''performance first''\<rparr>]"

text \<open>An intent with no category and no price bounds.\<close>

definition laptop_intent :: intent where
  "laptop_intent =
     \<lparr>product_category = None, search_query = ''laptop'', keyword_list = [''laptop''],
      min_price = None, max_price = None, user_needs = ''laptop''\<rparr>"

text \<open>The prompt of the call \<^verbatim>\<open>_generate_recommendation_reason\<close> makes for a
  product.\<close>

definition reason_prompt_of :: "env \<Rightarrow> string \<Rightarrow> string \<Rightarrow> product_model \<Rightarrow> string" where
  "reason_prompt_of e user_query user_needs' p =
     recommendation_reason_prompt e user_query user_needs' (name p) (brand p) (lowest_price p)
       (spec_items_str (specs_str_of p))"

text \<open>A candidate of the single-step flow with a given product code and score.\<close>

definition item :: "string \<Rightarrow> real \<Rightarrow> llm_hit" where
  "item code s = \<lparr>product = laptop\<lparr>danawa_product_id := code\<rparr>, mall_info = None, score = s\<rparr>"

section \<open>Parent links\<close>

text \<open>The pairs (category, its parent) of a category table, and those of them whose
  category is not soft-deleted.\<close>

definition parent_links :: "category_model list \<Rightarrow> (int \<times> int) set" where
  "parent_links cats = {(cat_id c, p) | c p. c \<in> set cats \<and> parent_id c = Some p}"

definition active_links :: "category_model list \<Rightarrow> (int \<times> int) set" where
  "active_links cats =
     {(cat_id c, p) | c p. c \<in> set cats \<and> \<not> cat_deleted c \<and> parent_id c = Some p}"

section \<open>Well-keyed dictionaries\<close>

text \<open>An association list that is a dictionary of candidates by product code: no key
  twice, and every candidate under its own code.\<close>

definition keyed :: "(string \<times> llm_hit) list \<Rightarrow> bool" where
  "keyed res \<longleftrightarrow> distinct (map fst res) \<and> (\<forall>k v. map_of res k = Some v \<longrightarrow> pid v = k)"

section \<open>Properties of the two-step flow\<close>

subsection \<open>Performance score\<close>

text \<open>
  Claim C6. For a product whose rating is absent or lies in [0,5], whose review count is
  not negative, and a combined score in [0,1], the performance score of the two-step flow
  is \<open>min 1 (combined * 0.7 + rating / 25 + min (count / 1000) 0.1)\<close>, an absent rating
  counting as zero, and it lies in [0,1].
\<close>

theorem performance_score_bounded:
  assumes "0 \<le> cs" and "cs \<le> 1"
    and "case review_rating p of None \<Rightarrow> True | Some r \<Rightarrow> 0 \<le> r \<and> r \<le> 5"
    and "0 \<le> review_count p"
  shows "calculate_performance_score p cs =
           min 1 (cs * 0.7 + (case review_rating p of None \<Rightarrow> 0 | Some r \<Rightarrow> r) / 25
                  + min (real_of_int (review_count p) / 1000) 0.1)
         \<and> 0 \<le> calculate_performance_score p cs
         \<and> calculate_performance_score p cs \<le> 1"
proof -
  have eq: "rating_or_zero (review_rating p) = (case review_rating p of None \<Rightarrow> 0 | Some r \<Rightarrow> r)"
    by (simp add: rating_or_zero_def split: option.split)
  have r0: "0 \<le> rating_or_zero (review_rating p)"
    using assms(3) by (cases "review_rating p") (simp_all add: rating_or_zero_def)
  have c0: "0 \<le> min (real_of_int (review_count p) / 1000) 0.1"
    using assms(4) by simp
  have s0: "0 \<le> cs * 0.7 + rating_or_zero (review_rating p) / 25
                 + min (real_of_int (review_count p) / 1000) 0.1"
    using assms(1) r0 c0 by simp
  show ?thesis
    using s0 by (simp add: calculate_performance_score_def Let_def eq)
qed

text \<open>The cap at work: 10,000 reviews, a rating of 5 and a combined score of 1 give a
  performance score of exactly 1.\<close>

theorem performance_score_bounded_witness:
  "(0::real) \<le> 1 \<and> (1::real) \<le> 1
   \<and> (case review_rating laptop of None \<Rightarrow> True | Some r \<Rightarrow> 0 \<le> r \<and> r \<le> 5)
   \<and> review_count laptop = 10000
   \<and> calculate_performance_score laptop 1 = 1
   \<and> 0 \<le> calculate_performance_score laptop 1
   \<and> calculate_performance_score laptop 1 \<le> 1"
  using performance_score_bounded [of 1 laptop]
  by (simp add: laptop_def)

subsection \<open>Threshold relaxation\<close>

lemma length_select_top: "length (select_top fused) = min TOP_K (length fused)"
proof (cases "length (filter (\<lambda>r. MIN_SIMILARITY \<le> combined_score r) fused) < TOP_K")
  case True
  then show ?thesis by (simp add: select_top_def Let_def min.commute)
next
  case False
  have "length (filter (\<lambda>r. MIN_SIMILARITY \<le> combined_score r) fused) \<le> length fused"
    by (rule length_filter_le)
  with False have "TOP_K \<le> length fused" by linarith
  with False show ?thesis by (simp add: select_top_def Let_def min_def)
qed

lemma sorted_desc_sorted: "sorted (rev (map key (sorted_desc key xs)))"
  by (simp add: sorted_desc_def rev_map)

lemma srs_fuse_sorted:
  "sorted_wrt (\<lambda>a b. combined_score b \<le> combined_score a) (srs_fuse_results vs)"
proof -
  define key where "key = (\<lambda>x :: fused_hit. (combined_score x, review_count (product x),
                            rating_or_zero (review_rating (product x))))"
  obtain ys where ys: "srs_fuse_results vs = sorted_desc key ys"
    by (simp add: srs_fuse_results_def Let_def key_def)
  have "sorted (map key (rev (sorted_desc key ys)))"
    using sorted_desc_sorted [of key ys] by (simp add: rev_map)
  then have "sorted_wrt (\<lambda>a b. key a \<le> key b) (rev (sorted_desc key ys))"
    by (simp add: sorted_map)
  then have "sorted_wrt (\<lambda>a b. combined_score a \<le> combined_score b) (rev (sorted_desc key ys))"
    by (rule sorted_wrt_mono_rel [rotated]) (auto simp: key_def less_eq_prod_def)
  then have "sorted_wrt (\<lambda>a b. combined_score b \<le> combined_score a) (sorted_desc key ys)"
    by (simp add: sorted_wrt_rev)
  then show ?thesis by (simp add: ys)
qed

lemma collect_length: "collect xs = Inr ys \<Longrightarrow> length ys = length xs"
  by (induction xs arbitrary: ys) (auto split: sum.splits)

lemma length_enumerate1 [simp]: "length (enumerate1 xs) = length xs"
  by (simp add: enumerate1_def del: upt_Suc)

lemma srs_assemble_length:
  assumes "srs_assemble e q i fused = Inr r"
  shows "length (response_product r) = length (select_top fused)"
proof (cases "select_top fused = []")
  case True
  with assms show ?thesis by (auto simp: srs_assemble_def Let_def)
next
  case False
  with assms obtain prods where
    c: "collect (map (\<lambda>(rank, p_data).
                  analyze_product e p_data q (user_needs i) rank
                    (map (\<lambda>p. lowest_price (product p)) (select_top fused))
                    (batch_analyze_products e q (user_needs i) (select_top fused)
                       (danawa_product_id (product p_data))))
                (enumerate1 (select_top fused))) = Inr prods"
    and r: "r = \<lparr>response_user_query = q, response_product = prods\<rparr>"
    by (auto simp: srs_assemble_def Let_def split: sum.splits)
  from collect_length [OF c] r show ?thesis by simp
qed

text \<open>
  Claim C4. Whatever the fused list, the selection has exactly \<open>min 5 (length fused)\<close>
  items, and so has the product list of the response assembled from it; when fewer than 5
  candidates reach 0.60 the selection is the first five of the fused list, threshold
  dropped; it is empty only when the fused list is; and the fused list is in descending
  order of combined score, so its first five are the top candidates by score.
\<close>

theorem threshold_relaxation:
  "length (select_top fused) = min 5 (length fused)
   \<and> (length (filter (\<lambda>r. 0.60 \<le> combined_score r) fused) < 5
        \<longrightarrow> select_top fused = take 5 fused)
   \<and> (fused \<noteq> [] \<longrightarrow> select_top fused \<noteq> [])
   \<and> (srs_assemble e q i fused = Inr r
        \<longrightarrow> length (response_product r) = min 5 (length fused))
   \<and> sorted_wrt (\<lambda>a b. combined_score b \<le> combined_score a) (srs_fuse_results vs)"
proof -
  have l: "length (select_top fused) = min 5 (length fused)"
    using length_select_top [of fused] by (simp add: TOP_K_def)
  have r: "length (filter (\<lambda>r. 0.60 \<le> combined_score r) fused) < 5
        \<longrightarrow> select_top fused = take 5 fused"
    by (auto simp: select_top_def Let_def TOP_K_def MIN_SIMILARITY_def)
  have n: "fused \<noteq> [] \<longrightarrow> select_top fused \<noteq> []"
    using l by (cases fused) auto
  have a: "srs_assemble e q i fused = Inr r
        \<longrightarrow> length (response_product r) = min 5 (length fused)"
    using srs_assemble_length [of e q i fused r] l by simp
  show ?thesis using l r n a srs_fuse_sorted by blast
qed

text \<open>Six candidates of which four reach 0.60: the first five are selected, the fifth
  below the threshold, and the response has five products.\<close>

theorem threshold_relaxation_witness:
  "length (filter (\<lambda>r. 0.60 \<le> combined_score r)
             (map hit_with [0.9, 0.8, 0.7, 0.65, 0.5, 0.4])) < 5
   \<and> map hit_with [0.9, 0.8, 0.7, 0.65, 0.5, 0.4] \<noteq> []
   \<and> select_top (map hit_with [0.9, 0.8, 0.7, 0.65, 0.5, 0.4])
       = map hit_with [0.9, 0.8, 0.7, 0.65, 0.5]
   \<and> length (select_top (map hit_with [0.9, 0.8, 0.7, 0.65, 0.5, 0.4])) = 5
   \<and> (\<exists>r. srs_assemble example_env ''laptop'' inverted_intent
               (map hit_with [0.9, 0.8, 0.7, 0.65, 0.5, 0.4]) = Inr r
            \<and> length (response_product r) = 5)"
proof -
  let ?fused = "map hit_with [0.9, 0.8, 0.7, 0.65, 0.5, 0.4]"
  have "\<not> isl (srs_assemble example_env ''laptop'' inverted_intent ?fused)"
    by code_simp
  then obtain r where r: "srs_assemble example_env ''laptop'' inverted_intent ?fused = Inr r"
    by (cases "srs_assemble example_env ''laptop'' inverted_intent ?fused") auto
  note t = threshold_relaxation
    [where fused = ?fused and vs = "[]" and e = example_env and q = "''laptop''"
       and i = inverted_intent and r = r]
  from t r have "length (response_product r) = 5" by simp
  with r have x: "\<exists>r. srs_assemble example_env ''laptop'' inverted_intent ?fused = Inr r
                  \<and> length (response_product r) = 5"
    by blast
  from t have "length (filter (\<lambda>r. 0.60 \<le> combined_score r) ?fused) < 5
      \<and> ?fused \<noteq> []
      \<and> select_top ?fused = map hit_with [0.9, 0.8, 0.7, 0.65, 0.5]
      \<and> length (select_top ?fused) = 5"
    by (simp add: hit_with_def)
  with x show ?thesis by blast
qed

subsection \<open>Price bounds\<close>

text \<open>
  Claim C8. For an intent whose two price bounds are present with the lower above the
  upper, both bounds are discarded before retrieval: the vector search is called with no
  price bound, and the retrieval is the one of the same intent without price bounds. The
  bounds are not exchanged and nothing is raised for the inversion.
\<close>

theorem inverted_price_range_discarded:
  assumes "min_price i = Some lo" and "max_price i = Some hi" and "hi < lo"
  shows "validate_price_range (min_price i) (max_price i) = (None, None)
         \<and> srs_retrieve e i =
             (case srs_vector_search e (search_query i) (srs_resolve_category e i) None None of
                Inl err \<Rightarrow> Inl err
              | Inr vector_results \<Rightarrow> Inr (srs_fuse_results vector_results))
         \<and> srs_retrieve e i = srs_retrieve e (i\<lparr>min_price := None, max_price := None\<rparr>)"
  using assms
  by (simp add: srs_retrieve_def validate_price_range_def srs_resolve_category_def)

text \<open>Bounds of 2,000,000 and 500,000: the product priced 900,000, outside both, is
  retrieved.\<close>

theorem inverted_price_range_discarded_witness:
  "min_price inverted_intent = Some 2000000 \<and> max_price inverted_intent = Some 500000
   \<and> (500000 :: int) < 2000000
   \<and> validate_price_range (min_price inverted_intent) (max_price inverted_intent) = (None, None)
   \<and> lowest_price laptop = 900000
   \<and> srs_retrieve example_env inverted_intent = Inr [hit_with (3 / 4)]"
proof -
  have m: "min_price inverted_intent = Some 2000000" "max_price inverted_intent = Some 500000"
    by (simp_all add: inverted_intent_def)
  have s: "srs_vector_search example_env ''laptop'' None None None
             = Inr [\<lparr>product = laptop, mall_info = None, vector_score = 3 / 4\<rparr>]"
    by (simp add: srs_vector_search_def example_env_def laptop_def not_excluded_def
          first_mall_info_def SEARCH_LIMIT_def)
  have f: "srs_fuse_results [\<lparr>product = laptop, mall_info = None, vector_score = 3 / 4\<rparr>]
             = [hit_with (3 / 4)]"
    by (simp add: srs_fuse_results_def sorted_desc_def hit_with_def VECTOR_WEIGHT_def)
  have c: "srs_resolve_category example_env inverted_intent = None"
    by (simp add: srs_resolve_category_def inverted_intent_def)
  have q: "search_query inverted_intent = ''laptop''"
    by (simp add: inverted_intent_def)
  show ?thesis
    using inverted_price_range_discarded [OF m, of example_env] s f c q m
    by (simp add: laptop_def)
qed

text \<open>
  Claim C10. In the survey analysis an extracted upper bound that is zero or negative
  becomes none, so that it has no effect on the intent; the extracted lower bound is kept
  as it is, zero included; and whatever the language model answers, an upper bound of the
  analysed intent is positive.
\<close>

theorem non_positive_max_price_dropped:
  "(raw_max_price r = Some m \<and> m \<le> 0 \<longrightarrow>
      max_price (build_intent q r) = None
      \<and> build_intent q r = build_intent q (r\<lparr>raw_max_price := None\<rparr>))
   \<and> min_price (build_intent q r) = raw_min_price r
   \<and> (case max_price (analyze_survey e q ss) of None \<Rightarrow> True | Some hi \<Rightarrow> 0 < hi)"
proof -
  have a: "case max_price (build_intent q r') of None \<Rightarrow> True | Some hi \<Rightarrow> 0 < hi" for r'
    by (simp add: build_intent_def Let_def split: option.split)
  have b: "max_price (fallback_intent q ss') = None" for ss'
    by (simp add: fallback_intent_def Let_def)
  have "analyze_survey e q ss = fallback_intent q ss
        \<or> (\<exists>r'. analyze_survey e q ss = build_intent q r')"
    by (auto simp: analyze_survey_def Let_def split: sum.split llm_response.split option.split)
  then have c: "case max_price (analyze_survey e q ss) of None \<Rightarrow> True | Some hi \<Rightarrow> 0 < hi"
  proof
    assume "analyze_survey e q ss = fallback_intent q ss"
    then show ?thesis by (simp add: b)
  next
    assume "\<exists>r'. analyze_survey e q ss = build_intent q r'"
    then obtain r' where "analyze_survey e q ss = build_intent q r'" ..
    then show ?thesis using a [of r'] by simp
  qed
  show ?thesis
    using c by (auto simp: build_intent_def Let_def split: option.split)
qed

text \<open>An answer with both bounds zero: the lower bound stays, the upper bound goes.\<close>

theorem non_positive_max_price_dropped_witness:
  "raw_max_price zero_priced = Some 0 \<and> (0 :: int) \<le> 0 \<and> raw_min_price zero_priced = Some 0
   \<and> max_price (build_intent ''laptop'' zero_priced) = None
   \<and> min_price (build_intent ''laptop'' zero_priced) = Some 0
   \<and> analyze_survey zero_priced_env ''laptop'' [] = build_intent ''laptop'' zero_priced
   \<and> max_price (analyze_survey zero_priced_env ''laptop'' []) = None"
proof -
  have r: \<open>re_search_braces ''Here: {"search_query": "laptop", "min_price": 0, "max_price": 0}''
             = Some ''{"search_query": "laptop", "min_price": 0, "max_price": 0}''\<close>
    by (simp add: re_search_braces_def)
  have a: "analyze_survey zero_priced_env ''laptop'' [] = build_intent ''laptop'' zero_priced"
    by (simp add: analyze_survey_def zero_priced_env_def example_env_def r)
  have h: "raw_max_price zero_priced = Some 0 \<and> (0 :: int) \<le> 0"
    and mn: "raw_min_price zero_priced = Some 0"
    by (simp_all add: zero_priced_def)
  note t = non_positive_max_price_dropped [of zero_priced 0 "''laptop''" zero_priced_env "[]"]
  from t h have 1: "max_price (build_intent ''laptop'' zero_priced) = None" by blast
  from t mn have 2: "min_price (build_intent ''laptop'' zero_priced) = Some 0" by metis
  from 1 2 a h mn show ?thesis by simp
qed

section \<open>Category descendants\<close>

lemma active_links_subset: "active_links cats \<subseteq> parent_links cats"
  by (auto simp: active_links_def parent_links_def)

lemma finite_active_links: "finite (active_links cats)"
proof -
  have "active_links cats \<subseteq> (\<lambda>c. (cat_id c, the (parent_id c))) ` set cats"
    by (force simp: active_links_def)
  then show ?thesis by (rule finite_subset) simp
qed

lemma children_ids: "cat_id ` set (children_of cats cid) = {y. (y, cid) \<in> active_links cats}"
  by (auto simp: children_of_def active_links_def image_iff)

lemma those_map_stable:
  fixes f :: "nat \<Rightarrow> 'a \<Rightarrow> 'b option"
  assumes "\<forall>x \<in> set xs. \<exists>n ids. (\<forall>m\<ge>n. f m x = Some ids) \<and> P x ids"
  shows "\<exists>n idss. (\<forall>m\<ge>n. those (map (f m) xs) = Some idss) \<and> list_all2 P xs idss"
  using assms
proof (induction xs)
  case Nil
  then show ?case by simp
next
  case (Cons x xs)
  from Cons.prems obtain n1 ids where x: "\<forall>m\<ge>n1. f m x = Some ids" "P x ids"
    by auto
  from Cons obtain n2 idss where xs: "\<forall>m\<ge>n2. those (map (f m) xs) = Some idss" "list_all2 P xs idss"
    by auto
  have "\<forall>m\<ge>max n1 n2. those (map (f m) (x # xs)) = Some (ids # idss)"
  proof (intro allI impI)
    fix m assume m: "max n1 n2 \<le> m"
    have "n1 \<le> m" using m by simp
    with x(1) have 1: "f m x = Some ids" by blast
    have "n2 \<le> m" using m by simp
    with xs(1) have 2: "those (map (f m) xs) = Some idss" by blast
    from 1 2 show "those (map (f m) (x # xs)) = Some (ids # idss)" by simp
  qed
  moreover have "list_all2 P (x # xs) (ids # idss)"
    using x(2) xs(2) by simp
  ultimately show ?case by blast
qed

lemma trancl_last_step:
  "(c, cid) \<in> r\<^sup>+ \<longleftrightarrow> (\<exists>y. (y, cid) \<in> r \<and> (c = y \<or> (c, y) \<in> r\<^sup>+))"
proof
  assume "(c, cid) \<in> r\<^sup>+"
  then obtain y where "(c, y) \<in> r\<^sup>*" "(y, cid) \<in> r"
    by (meson tranclD2)
  then show "\<exists>y. (y, cid) \<in> r \<and> (c = y \<or> (c, y) \<in> r\<^sup>+)"
    by (auto simp: rtrancl_eq_or_trancl)
next
  assume "\<exists>y. (y, cid) \<in> r \<and> (c = y \<or> (c, y) \<in> r\<^sup>+)"
  then show "(c, cid) \<in> r\<^sup>+"
    by (auto intro: trancl_into_trancl)
qed

lemma descendants_wf:
  assumes "wf (active_links cats)"
  shows "\<exists>n ids. (\<forall>m\<ge>n. get_descendant_category_ids m cats cid = Some ids)
           \<and> set ids = insert cid {c. (c, cid) \<in> (active_links cats)\<^sup>+}"
  using assms
proof (induction cid rule: wf_induct_rule)
  case (less cid)
  let ?R = "active_links cats"
  let ?P = "\<lambda>ch ids. set ids = insert (cat_id ch) {c. (c, cat_id ch) \<in> ?R\<^sup>+}"
  have "\<forall>ch \<in> set (children_of cats cid).
          \<exists>n ids. (\<forall>m\<ge>n. get_descendant_category_ids m cats (cat_id ch) = Some ids) \<and> ?P ch ids"
  proof
    fix ch assume "ch \<in> set (children_of cats cid)"
    then have "(cat_id ch, cid) \<in> ?R"
      using children_ids [of cats cid] by blast
    then show "\<exists>n ids. (\<forall>m\<ge>n. get_descendant_category_ids m cats (cat_id ch) = Some ids) \<and> ?P ch ids"
      by (rule less.IH)
  qed
  then obtain n idss where
    n: "\<forall>m\<ge>n. those (map (\<lambda>ch. get_descendant_category_ids m cats (cat_id ch))
                       (children_of cats cid)) = Some idss"
    and p: "list_all2 ?P (children_of cats cid) idss"
    using those_map_stable
      [of "children_of cats cid" "\<lambda>m ch. get_descendant_category_ids m cats (cat_id ch)" ?P]
    by blast
  have run: "\<forall>m\<ge>Suc n. get_descendant_category_ids m cats cid = Some (cid # concat idss)"
  proof (intro allI impI)
    fix m assume "Suc n \<le> m"
    then obtain m' where m: "m = Suc m'" "n \<le> m'"
      by (cases m) auto
    then show "get_descendant_category_ids m cats cid = Some (cid # concat idss)"
      using n by simp
  qed
  have "(\<Union> (set ` set idss)) = (\<Union>ch \<in> set (children_of cats cid).
            insert (cat_id ch) {c. (c, cat_id ch) \<in> ?R\<^sup>+})"
    using p by (induction rule: list_all2_induct) auto
  also have "\<dots> = (\<Union>y \<in> cat_id ` set (children_of cats cid). insert y {c. (c, y) \<in> ?R\<^sup>+})"
    by blast
  also have "\<dots> = {c. (c, cid) \<in> ?R\<^sup>+}"
    unfolding children_ids using trancl_last_step [of _ cid ?R] by blast
  finally have "set (cid # concat idss) = insert cid {c. (c, cid) \<in> ?R\<^sup>+}"
    by simp
  with run show ?case by blast
qed

text \<open>
  Claim C9, as the code has it. For every node id of a category table whose parent links
  have no cycle, the collection of descendants returns once the depth of recursion allowed
  is large enough, the same list from there on; the list contains the id itself and,
  besides it, exactly the categories that are not soft-deleted and reach the id by parent
  links through categories that are not soft-deleted. In particular every category is
  among its own descendants.
\<close>

theorem descendants_of_acyclic_tree:
  assumes "acyclic (parent_links cats)"
  shows "\<exists>n ids. (\<forall>m\<ge>n. get_descendant_category_ids m cats cid = Some ids)
           \<and> cid \<in> set ids
           \<and> set ids = insert cid {c. (c, cid) \<in> (active_links cats)\<^sup>+}"
proof -
  have "acyclic (active_links cats)"
    using assms active_links_subset by (rule acyclic_subset)
  then have "wf (active_links cats)"
    using finite_active_links by (simp add: finite_acyclic_wf)
  from descendants_wf [OF this, of cid] show ?thesis by auto
qed

lemma parent_links_list:
  "parent_links cats =
     set (concat (map (\<lambda>c. case parent_id c of None \<Rightarrow> [] | Some p \<Rightarrow> [(cat_id c, p)]) cats))"
  by (auto simp: parent_links_def split: option.splits)

lemma active_links_list:
  "active_links cats =
     set (concat (map (\<lambda>c. case parent_id c of None \<Rightarrow> [] | Some p \<Rightarrow> [(cat_id c, p)])
                      (filter (\<lambda>c. \<not> cat_deleted c) cats)))"
  by (auto simp: active_links_def split: option.splits)

lemma example_links:
  "parent_links example_categories = {(2, 1), (3, 2), (4, 1)}"
  "active_links example_categories = {(2, 1), (3, 2)}"
  by (simp_all add: parent_links_list active_links_list example_categories_def)

lemma example_acyclic: "acyclic (parent_links example_categories)"
proof -
  have "parent_links example_categories \<subseteq> measure (\<lambda>i. nat (10 - i))"
    by (auto simp: example_links)
  then have "wf (parent_links example_categories)"
    by (rule wf_subset [OF wf_measure])
  then show ?thesis by (rule wf_acyclic)
qed

lemma example_run: "get_descendant_category_ids (Suc (Suc (Suc n))) example_categories 1 = Some [1, 2, 3]"
  by (simp add: example_categories_def children_of_def)

text \<open>The claim as stated fails at a soft-deleted child: category 4 has parent 1 and is
  not among the descendants of 1.\<close>

theorem descendants_skip_deleted_counterexample:
  "\<lparr>cat_id = 4, cat_name = ''retired'', parent_id = Some 1, cat_deleted = True\<rparr>
      \<in> set example_categories
   \<and> (4, 1) \<in> parent_links example_categories
   \<and> get_descendant_category_ids 1000 example_categories 1 = Some [1, 2, 3]
   \<and> 4 \<notin> set [1, 2, 3 :: int]"
proof -
  have "get_descendant_category_ids 1000 example_categories 1 = Some [1, 2, 3]"
    using example_run [of 997] by (simp add: eval_nat_numeral)
  then show ?thesis
    by (simp add: example_links) (simp add: example_categories_def)
qed

text \<open>The example table is acyclic; the descendants of 1 are 1, 2 and 3.\<close>

theorem descendants_of_acyclic_tree_witness:
  "acyclic (parent_links example_categories)
   \<and> (\<exists>n. \<forall>m\<ge>n. get_descendant_category_ids m example_categories 1 = Some [1, 2, 3])
   \<and> set [1, 2, 3] = insert 1 {c. (c, 1) \<in> (active_links example_categories)\<^sup>+}"
proof -
  from descendants_of_acyclic_tree [OF example_acyclic, of 1]
  obtain n ids where n: "\<forall>m\<ge>n. get_descendant_category_ids m example_categories 1 = Some ids"
    and s: "set ids = insert 1 {c. (c, 1) \<in> (active_links example_categories)\<^sup>+}"
    by blast
  have "n \<le> Suc (Suc (Suc n))" by simp
  with n have "get_descendant_category_ids (Suc (Suc (Suc n))) example_categories 1 = Some ids"
    by blast
  then have "Some ids = Some [1, 2, 3]"
    by (simp only: example_run)
  then have "ids = [1, 2, 3]"
    by simp
  with n s example_acyclic show ?thesis by blast
qed

section \<open>Properties of the single-step flow\<close>

subsection \<open>Weighted-sum fusion\<close>

lemma keyed_update: "keyed res \<Longrightarrow> pid v = k \<Longrightarrow> keyed (AList.update k v res)"
  by (simp add: keyed_def distinct_update update_conv')

lemma keyed_entries: "keyed res \<Longrightarrow> (k, v) \<in> set res \<Longrightarrow> pid v = k"
  by (simp add: keyed_def)

lemma pid_score_update [simp]: "pid (r\<lparr>score := s\<rparr>) = pid r"
  by (simp add: pid_def)

lemma keyed_lookup: "keyed res \<Longrightarrow> map_of res k = Some v \<Longrightarrow> pid v = k"
  by (simp add: keyed_def)

lemma keyed_fuse_step: "keyed res \<Longrightarrow> keyed (fuse_step i res)"
  by (auto simp: fuse_step_def intro!: keyed_update dest: keyed_lookup split: option.split)

lemma map_of_fuse_step:
  "map_of (fuse_step i res) =
     (map_of res)(pid i \<mapsto> (case map_of res (pid i) of
                                Some r \<Rightarrow> r\<lparr>score := score r * 0.7 + score i * 0.3\<rparr>
                              | None \<Rightarrow> i))"
  by (simp add: fuse_step_def update_conv' split: option.split)

lemma keyed_fold_update: "keyed res \<Longrightarrow> keyed (fold (\<lambda>i m. AList.update (pid i) i m) vec res)"
  by (induction vec arbitrary: res) (simp_all add: keyed_update)

lemma keyed_fold_fuse: "keyed res \<Longrightarrow> keyed (fold fuse_step key res)"
  by (induction key arbitrary: res) (simp_all add: keyed_fuse_step)

lemma map_of_fold_update:
  "distinct (map pid vec) \<Longrightarrow>
   map_of (fold (\<lambda>i m. AList.update (pid i) i m) vec res) p =
     (case find (\<lambda>i. pid i = p) vec of Some v \<Rightarrow> Some v | None \<Rightarrow> map_of res p)"
proof (induction vec arbitrary: res)
  case Nil
  then show ?case by simp
next
  case (Cons i vec)
  have nf: "find (\<lambda>j. pid j = pid i) vec = None"
    using Cons.prems by (auto simp: find_None_iff image_iff)
  have d: "distinct (map pid vec)"
    using Cons.prems by simp
  show ?case
  proof (cases "pid i = p")
    case True
    with nf have "find (\<lambda>j. pid j = p) vec = None" by simp
    with True show ?thesis
      by (simp add: Cons.IH [OF d] update_conv')
  next
    case False
    then have "map_of (AList.update (pid i) i res) p = map_of res p"
      by (simp add: update_conv')
    with False show ?thesis
      by (simp add: Cons.IH [OF d] cong: option.case_cong)
  qed
qed

lemma map_of_fold_fuse:
  "distinct (map pid key) \<Longrightarrow>
   map_of (fold fuse_step key res) p =
     (case find (\<lambda>i. pid i = p) key of
        None \<Rightarrow> map_of res p
      | Some k \<Rightarrow> (case map_of res p of
                     Some r \<Rightarrow> Some (r\<lparr>score := score r * 0.7 + score k * 0.3\<rparr>)
                   | None \<Rightarrow> Some k))"
proof (induction key arbitrary: res)
  case Nil
  then show ?case by simp
next
  case (Cons i key)
  have nf: "find (\<lambda>j. pid j = pid i) key = None"
    using Cons.prems by (auto simp: find_None_iff image_iff)
  have d: "distinct (map pid key)"
    using Cons.prems by simp
  show ?case
  proof (cases "pid i = p")
    case True
    with nf have "find (\<lambda>j. pid j = p) key = None" by simp
    with True show ?thesis
      by (simp add: Cons.IH [OF d] map_of_fuse_step split: option.split)
  next
    case False
    then have "map_of (fuse_step i res) p = map_of res p"
      by (simp add: map_of_fuse_step)
    with False show ?thesis
      by (simp add: Cons.IH [OF d] cong: option.case_cong)
  qed
qed

lemma find_distinct:
  "distinct (map f xs) \<Longrightarrow> x \<in> set xs \<Longrightarrow> find (\<lambda>i. f i = f x) xs = Some x"
  by (induction xs) (auto simp: image_iff)

lemma find_absent: "p \<notin> f ` set xs \<Longrightarrow> find (\<lambda>i. f i = p) xs = None"
  by (auto simp: find_None_iff)

lemma set_sorted_desc [simp]: "set (sorted_desc key xs) = set xs"
  by (simp add: sorted_desc_def)

lemma distinct_map_sorted_desc:
  "distinct (map f xs) \<Longrightarrow> distinct (map f (sorted_desc key xs))"
  by (simp add: distinct_map sorted_desc_def)

lemma sorted_desc_descending:
  "sorted_wrt (\<lambda>a b. key b \<le> key a) (sorted_desc key xs)"
proof -
  have "sorted (map key (sort_key key (rev xs)))" by simp
  then have "sorted_wrt (\<lambda>a b. key a \<le> key b) (sort_key key (rev xs))"
    by (simp add: sorted_map)
  then show ?thesis
    by (simp add: sorted_desc_def sorted_wrt_rev)
qed

lemma keyed_values:
  assumes "keyed res"
  shows "v \<in> set (map snd res) \<longleftrightarrow> map_of res (pid v) = Some v"
proof
  assume "v \<in> set (map snd res)"
  then obtain k where kv: "(k, v) \<in> set res" by auto
  with assms have "pid v = k" by (rule keyed_entries)
  with kv assms show "map_of res (pid v) = Some v" by (simp add: keyed_def)
next
  assume "map_of res (pid v) = Some v"
  then have "(pid v, v) \<in> set res" by (rule map_of_SomeD)
  then show "v \<in> set (map snd res)" by force
qed

lemma keyed_pids:
  assumes "keyed res"
  shows "map pid (map snd res) = map fst res"
proof -
  have "\<forall>x \<in> set res. pid (snd x) = fst x"
    using keyed_entries [OF assms] by auto
  then show ?thesis by simp
qed

text \<open>
  Claim C5. For a vector-path list and a keyword-path list in each of which a product
  appears at most once, the weighted-sum fuser returns each product of both paths once:
  a product found by both paths with the score \<open>vector * 0.7 + keyword * 0.3\<close>, a
  product found by one path only as that path returned it, score unchanged; and the
  result is in descending order of score.
\<close>

theorem weighted_sum_fusion:
  assumes "distinct (map pid vec)" and "distinct (map pid key)"
  shows "(\<forall>v \<in> set vec. \<forall>k \<in> set key. pid v = pid k \<longrightarrow>
            v\<lparr>score := score v * 0.7 + score k * 0.3\<rparr> \<in> set (llm_fuse_results vec key))
         \<and> (\<forall>v \<in> set vec. pid v \<notin> pid ` set key \<longrightarrow> v \<in> set (llm_fuse_results vec key))
         \<and> (\<forall>k \<in> set key. pid k \<notin> pid ` set vec \<longrightarrow> k \<in> set (llm_fuse_results vec key))
         \<and> distinct (map pid (llm_fuse_results vec key))
         \<and> pid ` set (llm_fuse_results vec key) = pid ` set vec \<union> pid ` set key
         \<and> sorted_wrt (\<lambda>a b. score b \<le> score a) (llm_fuse_results vec key)"
proof -
  define res0 where "res0 = fold (\<lambda>i m. AList.update (pid i) i m) vec []"
  define res1 where "res1 = fold fuse_step key res0"
  have fused: "llm_fuse_results vec key = sorted_desc score (map snd res1)"
    by (simp add: llm_fuse_results_def res0_def res1_def)
  have k0: "keyed res0"
    unfolding res0_def by (rule keyed_fold_update) (simp add: keyed_def)
  then have k1: "keyed res1"
    unfolding res1_def by (rule keyed_fold_fuse)
  have m0: "map_of res0 p = find (\<lambda>i. pid i = p) vec" for p
    using map_of_fold_update [OF assms(1), of "[]" p]
    by (simp add: res0_def split: option.split)
  have m1: "map_of res1 p =
     (case find (\<lambda>i. pid i = p) key of
        None \<Rightarrow> find (\<lambda>i. pid i = p) vec
      | Some k \<Rightarrow> (case find (\<lambda>i. pid i = p) vec of
                     Some r \<Rightarrow> Some (r\<lparr>score := score r * 0.7 + score k * 0.3\<rparr>)
                   | None \<Rightarrow> Some k))" for p
    unfolding res1_def map_of_fold_fuse [OF assms(2)] m0 ..
  have mem: "v \<in> set (llm_fuse_results vec key) \<longleftrightarrow> map_of res1 (pid v) = Some v" for v
    using keyed_values [OF k1, of v] by (simp add: fused)
  have both: "\<forall>v \<in> set vec. \<forall>k \<in> set key. pid v = pid k \<longrightarrow>
            v\<lparr>score := score v * 0.7 + score k * 0.3\<rparr> \<in> set (llm_fuse_results vec key)"
  proof (intro ballI impI)
    fix v k assume v: "v \<in> set vec" and k: "k \<in> set key" and e: "pid v = pid k"
    have "find (\<lambda>i. pid i = pid v) vec = Some v"
      using assms(1) v by (rule find_distinct)
    moreover have "find (\<lambda>i. pid i = pid v) key = Some k"
      using find_distinct [OF assms(2) k] e by simp
    ultimately show "v\<lparr>score := score v * 0.7 + score k * 0.3\<rparr> \<in> set (llm_fuse_results vec key)"
      by (simp add: mem m1)
  qed
  have vonly: "\<forall>v \<in> set vec. pid v \<notin> pid ` set key \<longrightarrow> v \<in> set (llm_fuse_results vec key)"
  proof (intro ballI impI)
    fix v assume v: "v \<in> set vec" and n: "pid v \<notin> pid ` set key"
    have "find (\<lambda>i. pid i = pid v) vec = Some v"
      using assms(1) v by (rule find_distinct)
    moreover have "find (\<lambda>i. pid i = pid v) key = None"
      using n by (rule find_absent)
    ultimately show "v \<in> set (llm_fuse_results vec key)"
      by (simp add: mem m1)
  qed
  have konly: "\<forall>k \<in> set key. pid k \<notin> pid ` set vec \<longrightarrow> k \<in> set (llm_fuse_results vec key)"
  proof (intro ballI impI)
    fix k assume k: "k \<in> set key" and n: "pid k \<notin> pid ` set vec"
    have "find (\<lambda>i. pid i = pid k) key = Some k"
      using assms(2) k by (rule find_distinct)
    moreover have "find (\<lambda>i. pid i = pid k) vec = None"
      using n by (rule find_absent)
    ultimately show "k \<in> set (llm_fuse_results vec key)"
      by (simp add: mem m1)
  qed
  have "distinct (map pid (map snd res1))"
    unfolding keyed_pids [OF k1] using k1 by (simp add: keyed_def)
  then have d: "distinct (map pid (llm_fuse_results vec key))"
    unfolding fused by (rule distinct_map_sorted_desc)
  have "pid ` set (map snd res1) = set (map pid (map snd res1))"
    by (simp only: set_map)
  also have "\<dots> = set (map fst res1)"
    by (simp only: keyed_pids [OF k1])
  also have "\<dots> = dom (map_of res1)"
    by (simp add: dom_map_of_conv_image_fst)
  finally have "pid ` set (llm_fuse_results vec key) = dom (map_of res1)"
    by (simp add: fused)
  also have "\<dots> = pid ` set vec \<union> pid ` set key"
  proof (rule set_eqI)
    fix p
    have fv: "find (\<lambda>i. pid i = p) vec = None \<longleftrightarrow> p \<notin> pid ` set vec"
      by (auto simp: find_None_iff)
    have fk: "find (\<lambda>i. pid i = p) key = None \<longleftrightarrow> p \<notin> pid ` set key"
      by (auto simp: find_None_iff)
    show "p \<in> dom (map_of res1) \<longleftrightarrow> p \<in> pid ` set vec \<union> pid ` set key"
      using fv fk by (auto simp: dom_def m1 split: option.splits)
  qed
  finally have p: "pid ` set (llm_fuse_results vec key) = pid ` set vec \<union> pid ` set key" .
  have s: "sorted_wrt (\<lambda>a b. score b \<le> score a) (llm_fuse_results vec key)"
    unfolding fused by (rule sorted_desc_descending)
  from both vonly konly d p s show ?thesis by blast
qed

text \<open>Product 1 in both paths, product 2 in the vector path only, product 3 in the keyword
  path only.\<close>

theorem weighted_sum_fusion_witness:
  "distinct (map pid [item ''1'' 0.8, item ''2'' 0.6])
   \<and> distinct (map pid [item ''1'' 0.4, item ''3'' 0.7])
   \<and> pid (item ''1'' 0.8) = pid (item ''1'' 0.4)
   \<and> (item ''1'' 0.8)\<lparr>score := score (item ''1'' 0.8) * 0.7 + score (item ''1'' 0.4) * 0.3\<rparr>
         \<in> set (llm_fuse_results [item ''1'' 0.8, item ''2'' 0.6] [item ''1'' 0.4, item ''3'' 0.7])
   \<and> llm_fuse_results [item ''1'' 0.8, item ''2'' 0.6] [item ''1'' 0.4, item ''3'' 0.7]
       = [item ''3'' 0.7, item ''1'' 0.68, item ''2'' 0.6]"
proof -
  have d: "distinct (map pid [item ''1'' 0.8, item ''2'' 0.6])"
          "distinct (map pid [item ''1'' 0.4, item ''3'' 0.7])"
    by (simp_all add: pid_def item_def)
  have e: "llm_fuse_results [item ''1'' 0.8, item ''2'' 0.6] [item ''1'' 0.4, item ''3'' 0.7]
       = [item ''3'' 0.7, item ''1'' 0.68, item ''2'' 0.6]"
    by (simp add: llm_fuse_results_def fuse_step_def pid_def item_def sorted_desc_def)
  have p: "pid (item ''1'' 0.8) = pid (item ''1'' 0.4)"
    by (simp add: pid_def item_def)
  from weighted_sum_fusion [OF d]
  have "(item ''1'' 0.8)\<lparr>score := score (item ''1'' 0.8) * 0.7 + score (item ''1'' 0.4) * 0.3\<rparr>
         \<in> set (llm_fuse_results [item ''1'' 0.8, item ''2'' 0.6] [item ''1'' 0.4, item ''3'' 0.7])"
    using p by simp
  with d e p show ?thesis by simp
qed

text \<open>Product codes are unique in the store (\<^verbatim>\<open>unique=True\<close>), so each path
  returns a product at most once.\<close>

lemma distinct_map_filter: "distinct (map f xs) \<Longrightarrow> distinct (map f (filter P xs))"
  by (induction xs) auto

lemma distinct_map_take: "distinct (map f xs) \<Longrightarrow> distinct (map f (take n xs))"
  by (simp add: distinct_take flip: take_map)

lemma distinct_map_sort_key: "distinct (map f xs) \<Longrightarrow> distinct (map f (sort_key k xs))"
  by (simp add: distinct_map)

lemma keyword_search_distinct:
  assumes "distinct (map danawa_product_id (products e))"
  shows "distinct (map pid (keyword_search e kws ids))"
proof -
  have m: "map pid (map (\<lambda>p. \<lparr>product = p, mall_info = g p, score = s p\<rparr>) ps)
             = map danawa_product_id ps" for g s ps
    by (simp add: pid_def)
  show ?thesis
    unfolding keyword_search_def Let_def
    using assms
    by (auto simp only: m list.map if_True if_False distinct.simps
          intro!: distinct_map_take distinct_map_sorted_desc distinct_map_filter
          split: if_split)
qed

lemma hits_distinct:
  assumes "distinct (map danawa_product_id xs)"
  shows "distinct (map (pid \<circ> (\<lambda>p. \<lparr>product = p, mall_info = g p, score = s p\<rparr>))
                       (take n (sort_key k (filter P xs))))"
proof -
  have "pid \<circ> (\<lambda>p. \<lparr>product = p, mall_info = g p, score = s p\<rparr>) = danawa_product_id"
    by (auto simp: pid_def)
  with assms show ?thesis
    by (simp only:) (intro distinct_map_take distinct_map_sort_key distinct_map_filter)
qed

lemma llm_vector_search_distinct:
  assumes "distinct (map danawa_product_id (products e))"
    and "llm_vector_search e q ids = Inr hits"
  shows "distinct (map pid hits)"
  using assms(2)
  by (auto simp: llm_vector_search_def Let_def hits_distinct [OF assms(1)]
        split: sum.splits if_splits)

section \<open>Failures of the collaborators\<close>

subsection \<open>Embedding provider, safety lock and session\<close>

lemma llm_vector_search_raises:
  "create_embedding e q = Inl err \<Longrightarrow> llm_vector_search e q ids = Inl err"
  by (simp add: llm_vector_search_def)

lemma srs_vector_search_degrades:
  "create_embedding e q = Inl err \<Longrightarrow> srs_vector_search e q c lo hi = Inr []"
  by (simp add: srs_vector_search_def)

lemma llm_request_fails:
  assumes "\<And>q. create_embedding e q = Inl err"
  shows "isl (llm_get_recommendations e user_query)"
  by (simp add: llm_get_recommendations_def Let_def llm_vector_search_raises [OF assms]
        split: prod.split sum.split)

text \<open>
  Claim C1, as the code has it. When \<^verbatim>\<open>create_embedding\<close> raises, the vector
  search of the two-step flow returns the empty list; the vector search of the
  single-step flow has no handler, raises the same exception, and the request of the
  single-step flow ends in an exception. Below that, the run with a provider that raises
  \<^verbatim>\<open>ValueError\<close> on the query "laptop for study": the two-step request answers with
  no product, the single-step request raises.
\<close>

theorem embedding_failure_propagates:
  "srs_vector_search (e\<lparr>create_embedding := (\<lambda>text. Inl err)\<rparr>) q c lo hi = Inr []
   \<and> llm_vector_search (e\<lparr>create_embedding := (\<lambda>text. Inl err)\<rparr>) q ids = Inl err
   \<and> isl (llm_get_recommendations (e\<lparr>create_embedding := (\<lambda>text. Inl err)\<rparr>) q)
   \<and> srs_vector_search no_embedding_env ''laptop for study'' None None None = Inr []
   \<and> srs_get_recommendations no_embedding_env Map.empty 0 ''sr-1'' ''laptop for study''
         bare_answers
       = Inr \<lparr>response_user_query = ''laptop for study'', response_product = []\<rparr>
   \<and> llm_vector_search no_embedding_env ''laptop for study'' [] = Inl ValueError
   \<and> llm_get_recommendations no_embedding_env ''laptop for study'' = Inl ValueError"
proof -
  let ?e = "e\<lparr>create_embedding := (\<lambda>text. Inl err)\<rparr>"
  have f: "create_embedding ?e t = Inl err" for t by simp
  have 1: "srs_vector_search ?e q c lo hi = Inr []"
    using f by (rule srs_vector_search_degrades)
  have 2: "llm_vector_search ?e q ids = Inl err"
    using f by (rule llm_vector_search_raises)
  have 3: "isl (llm_get_recommendations ?e q)"
    using f by (rule llm_request_fails)
  have 4: "srs_vector_search no_embedding_env ''laptop for study'' None None None = Inr []"
    by code_simp
  have 5: "llm_vector_search no_embedding_env ''laptop for study'' [] = Inl ValueError"
    by code_simp
  have 6: "llm_get_recommendations no_embedding_env ''laptop for study'' = Inl ValueError"
    by code_simp
  have 7: "srs_get_recommendations no_embedding_env Map.empty 0 ''sr-1'' ''laptop for study''
         bare_answers
       = Inr \<lparr>response_user_query = ''laptop for study'', response_product = []\<rparr>"
    by code_simp
  from 1 2 3 4 5 6 7 show ?thesis by blast
qed























text \<open>
  Claim C3, as the code has it. The session written by the question-generation step holds
  the user query and no question set: it is readable under the returned id until 1800
  seconds have passed, and filling the question texts from it changes no survey answer,
  as with no session at all.
  Below that, the run in which question generation falls back to the default questions and
  four survey answers with empty question texts stay as they are.
\<close>

theorem session_stores_query_only:
  "fst (fst (generate_questions e c now u q)) = ''sr-'' @ take 8 u
   \<and> validate_search_id (snd (generate_questions e c now u q)) now (''sr-'' @ take 8 u)
       = Some \<lparr>cached_user_query = q, cached_questions = None\<rparr>
   \<and> validate_search_id (snd (generate_questions e c now u q)) (now + 1800) (''sr-'' @ take 8 u)
       = None
   \<and> fill_question_texts
        (validate_search_id (snd (generate_questions e c now u q)) t (''sr-'' @ take 8 u)) ss = ss
   \<and> fill_question_texts None ss = ss
   \<and> snd (fst (generate_questions example_env Map.empty 0 ''0123456789abcdef'' ''laptop''))
       = get_default_questions
   \<and> fill_question_texts
        (validate_search_id
           (snd (generate_questions example_env Map.empty 0 ''0123456789abcdef'' ''laptop''))
           60 ''sr-01234567'')
        bare_answers
       = bare_answers"
proof -
  have g: "generate_questions e c now u q =
            ((''sr-'' @ take 8 u, snd (fst (generate_questions e c now u q))),
             cache_set c (''shopping_research:'' @ ''sr-'' @ take 8 u)
               \<lparr>cached_user_query = q, cached_questions = None\<rparr> CACHE_TTL now)" for e c now u q
    by (simp add: generate_questions_def generate_search_id_def Let_def)
  have v: "validate_search_id (snd (generate_questions e c now u q)) t (''sr-'' @ take 8 u)
            = (if t < now + 1800 then Some \<lparr>cached_user_query = q, cached_questions = None\<rparr>
               else None)" for t
    by (subst g) (simp add: validate_search_id_def cache_get_def cache_set_def CACHE_TTL_def)
  have f: "fill_question_texts
        (validate_search_id (snd (generate_questions e c now u q)) t (''sr-'' @ take 8 u)) ss = ss"
    by (subst v) (simp add: fill_question_texts_def)
  have d: "snd (fst (generate_questions example_env Map.empty 0 ''0123456789abcdef'' ''laptop''))
       = get_default_questions"
    by (simp add: generate_questions_def generate_search_id_def Let_def example_env_def)
  have x: "fill_question_texts
        (validate_search_id
           (snd (generate_questions example_env Map.empty 0 ''0123456789abcdef'' ''laptop''))
           60 ''sr-01234567'')
        bare_answers
       = bare_answers"
    by (simp add: generate_questions_def generate_search_id_def Let_def example_env_def
          validate_search_id_def cache_get_def cache_set_def CACHE_TTL_def
          fill_question_texts_def)
  have 1: "fst (fst (generate_questions e c now u q)) = ''sr-'' @ take 8 u"
    by (subst g) simp
  have 2: "validate_search_id (snd (generate_questions e c now u q)) now (''sr-'' @ take 8 u)
       = Some \<lparr>cached_user_query = q, cached_questions = None\<rparr>"
    by (subst v) simp
  have 3: "validate_search_id (snd (generate_questions e c now u q)) (now + 1800)
             (''sr-'' @ take 8 u) = None"
    by (subst v) simp
  have m: "fill_question_texts None ss = ss"
    by (simp add: fill_question_texts_def)
  from 1 2 3 f m d x show ?thesis by blast
qed

subsection \<open>Recommendation reasons\<close>

text \<open>The claim as stated fails in the two-step flow: the batched call raises, and the
  candidate's reason is the answer of a further call to the language model, not a
  templated sentence.\<close>

theorem per_product_reason_counterexample:
  "generate_content chatty_env ''batch'' = Inl ProviderError
   \<and> batch_analyze_products chatty_env ''laptop'' ''laptop'' [hit_with (3 / 4)] ''1001'' = None
   \<and> map_sum id (\<lambda>r. map out_recommendation_reason (response_product r))
        (srs_get_recommendations chatty_env Map.empty 0 ''sr-1'' ''laptop'' bare_answers)
       = Inr [''Great for study.'']
   \<and> ''Great for study.'' \<noteq> missing_reason_sentence laptop
   \<and> ''Great for study.'' \<noteq> failed_reason_sentence (brand laptop) (name laptop)"
  by code_simp

lemma fallback_nonempty: "generate_fallback_reason p \<noteq> []"
  by (simp add: generate_fallback_reason_def)

lemma final_reason_nonempty: "final_reason m p \<noteq> []"
  by (simp add: final_reason_def fallback_nonempty split: option.split)

lemma rerank_reasons:
  "map rec_recommendation_reason (rerank_with_fallback e q i fused) =
     map (\<lambda>it. final_reason (reason_map_of e q i fused) (product it)) (take TOP_K fused)"
  by (simp add: rerank_with_fallback_def Let_def)

lemma rerank_codes:
  "map rec_product_code (rerank_with_fallback e q i fused) = map pid (take 5 fused)"
  by (simp add: rerank_with_fallback_def Let_def TOP_K_def pid_def)

lemma text_or_nonempty: "d \<noteq> [] \<Longrightarrow> text_or t d \<noteq> []"
  by (simp add: text_or_def split: option.split)

lemma missing_reason_nonempty: "missing_reason_sentence p \<noteq> []"
  by (simp add: missing_reason_sentence_def)

lemma failed_reason_nonempty: "failed_reason_sentence b n \<noteq> []"
  by (simp add: failed_reason_sentence_def)

lemma own_call_reason:
  "fst (recommendation_texts e p q n None) =
     (case generate_content e (reason_prompt_of e q n p) of
        Inl err \<Rightarrow> failed_reason_sentence (brand p) (name p)
      | Inr (TextObject t) \<Rightarrow> failed_reason_sentence (brand p) (name p)
      | Inr (PlainText answer) \<Rightarrow> strip answer)"
  by (simp add: recommendation_texts_def generate_recommendation_reason_def
        reason_prompt_of_def)

lemma recommendation_reason_nonempty:
  assumes "\<And>answer. generate_content e (reason_prompt_of e q n p) = Inr (PlainText answer)
             \<Longrightarrow> strip answer \<noteq> []"
  shows "fst (recommendation_texts e p q n pre) \<noteq> []"
proof (cases pre)
  case None
  with assms show ?thesis
    by (simp add: own_call_reason failed_reason_nonempty split: sum.split llm_response.split)
next
  case (Some a)
  then show ?thesis
    by (simp add: recommendation_texts_def text_or_nonempty missing_reason_nonempty)
qed

lemma analyze_product_reason:
  assumes "analyze_product e d q n rank prices pre = Inr out"
  shows "out_recommendation_reason out = fst (recommendation_texts e (product d) q n pre)"
  using assms
  by (auto simp: analyze_product_def Let_def split: prod.splits option.splits)

lemma analyze_product_fails:
  "isl (analyze_product e d q n rank prices pre)
     \<longleftrightarrow> py_int e (danawa_product_id (product d)) = None"
  by (auto simp: analyze_product_def Let_def split: prod.splits option.splits)

lemma collect_members:
  "collect xs = Inr ys \<Longrightarrow> y \<in> set ys \<Longrightarrow> Inr y \<in> set xs"
  by (induction xs arbitrary: ys) (auto split: sum.splits)

lemma collect_succeeds:
  "\<forall>x \<in> set xs. \<not> isl x \<Longrightarrow> \<exists>ys. collect xs = Inr ys"
proof (induction xs)
  case Nil
  then show ?case by simp
next
  case (Cons x xs)
  then obtain ys where "collect xs = Inr ys" by auto
  moreover from Cons.prems obtain v where "x = Inr v" by (cases x) auto
  ultimately show ?case by simp
qed

lemma set_enumerate1: "(rank, d) \<in> set (enumerate1 xs) \<Longrightarrow> d \<in> set xs"
  by (auto simp: enumerate1_def dest: set_zip_rightD)

lemma srs_assemble_reasons:
  assumes r: "srs_assemble e q i fused = Inr resp"
    and a: "\<And>d answer. d \<in> set (select_top fused)
              \<Longrightarrow> generate_content e (reason_prompt_of e q (user_needs i) (product d))
                    = Inr (PlainText answer)
              \<Longrightarrow> strip answer \<noteq> []"
    and out: "out \<in> set (response_product resp)"
  shows "out_recommendation_reason out \<noteq> []"
proof (cases "select_top fused = []")
  case True
  with r out show ?thesis by (auto simp: srs_assemble_def Let_def)
next
  case False
  let ?f = "\<lambda>(rank, p_data).
              analyze_product e p_data q (user_needs i) rank
                (map (\<lambda>p. lowest_price (product p)) (select_top fused))
                (batch_analyze_products e q (user_needs i) (select_top fused)
                   (danawa_product_id (product p_data)))"
  from False r obtain prods where
    c: "collect (map ?f (enumerate1 (select_top fused))) = Inr prods"
    and p: "resp = \<lparr>response_user_query = q, response_product = prods\<rparr>"
    by (auto simp: srs_assemble_def Let_def split: sum.splits)
  from out p have "out \<in> set prods" by simp
  with c have "Inr out \<in> set (map ?f (enumerate1 (select_top fused)))"
    by (rule collect_members)
  then obtain rank d where rd: "(rank, d) \<in> set (enumerate1 (select_top fused))"
    and o: "?f (rank, d) = Inr out"
    by auto
  from rd have d: "d \<in> set (select_top fused)" by (rule set_enumerate1)
  from o have "out_recommendation_reason out =
      fst (recommendation_texts e (product d) q (user_needs i)
             (batch_analyze_products e q (user_needs i) (select_top fused)
                (danawa_product_id (product d))))"
    by (simp add: analyze_product_reason)
  moreover have "fst (recommendation_texts e (product d) q (user_needs i)
             (batch_analyze_products e q (user_needs i) (select_top fused)
                (danawa_product_id (product d)))) \<noteq> []"
    by (rule recommendation_reason_nonempty) (rule a [OF d])
  ultimately show ?thesis by simp
qed

lemma srs_assemble_succeeds:
  assumes "\<And>d. d \<in> set (select_top fused) \<Longrightarrow> py_int e (danawa_product_id (product d)) \<noteq> None"
  shows "\<exists>resp. srs_assemble e q i fused = Inr resp"
proof (cases "select_top fused = []")
  case True
  then show ?thesis by (simp add: srs_assemble_def Let_def)
next
  case False
  let ?f = "\<lambda>(rank, p_data).
              analyze_product e p_data q (user_needs i) rank
                (map (\<lambda>p. lowest_price (product p)) (select_top fused))
                (batch_analyze_products e q (user_needs i) (select_top fused)
                   (danawa_product_id (product p_data)))"
  have "\<forall>x \<in> set (map ?f (enumerate1 (select_top fused))). \<not> isl x"
  proof
    fix x assume "x \<in> set (map ?f (enumerate1 (select_top fused)))"
    then obtain rank d where rd: "(rank, d) \<in> set (enumerate1 (select_top fused))"
      and x: "x = ?f (rank, d)"
      by auto
    from rd have "d \<in> set (select_top fused)" by (rule set_enumerate1)
    then have "py_int e (danawa_product_id (product d)) \<noteq> None" by (rule assms)
    with x show "\<not> isl x" by (simp add: analyze_product_fails)
  qed
  then obtain prods where "collect (map ?f (enumerate1 (select_top fused))) = Inr prods"
    using collect_succeeds by blast
  with False show ?thesis by (simp add: srs_assemble_def Let_def)
qed


text \<open>
  Claim C7, as the code has it. Single-step flow: whatever the language model does, the
  re-ranking returns the first five candidates, in their order, each with a reason that
  is not empty; when the call raises no reason is parsed, and a candidate whose code has no
  parsed reason receives the templated sentence, which starts with its brand and does not
  depend on its name. Two-step flow: when the batched call raises no analysis is parsed;
  a candidate whose batched entry lacks a reason receives the templated sentence of its
  brand and name; a candidate without a batched entry receives the answer of a call of
  its own, stripped, when that answer is not blank, and the templated sentence of its
  brand and name when that call raises. So, where no such answer is blank, every reason is
  not empty, for one candidate and for every product of an assembled response; and the
  response is assembled whenever \<^verbatim>\<open>int\<close> accepts the product codes, whatever the
  language model does.
\<close>

theorem reason_fallbacks:
  "map rec_product_code (rerank_with_fallback e q i fused) = map pid (take 5 fused)
   \<and> (\<forall>r \<in> set (rerank_with_fallback e q i fused). rec_recommendation_reason r \<noteq> [])
   \<and> (generate_content e (rerank_prompt e q i fused) = Inl err
        \<longrightarrow> reason_map_of e q i fused = Map.empty)
   \<and> (reason_map_of e q i fused (danawa_product_id p) = None
        \<longrightarrow> final_reason (reason_map_of e q i fused) p = generate_fallback_reason p)
   \<and> generate_fallback_reason (p\<lparr>name := n'\<rparr>) = generate_fallback_reason p
   \<and> take (length (brand p)) (generate_fallback_reason p) = brand p
   \<and> generate_fallback_reason p \<noteq> []
   \<and> (generate_content e (batch_product_analysis_prompt e q n (map product tops)) = Inl err
        \<longrightarrow> batch_analyze_products e q n tops = Map.empty)
   \<and> (item_recommendation_reason a = None
        \<longrightarrow> fst (recommendation_texts e p q n (Some a)) = missing_reason_sentence p)
   \<and> fst (recommendation_texts e p q n (Some a)) \<noteq> []
   \<and> (generate_content e (reason_prompt_of e q n p) = Inl err
        \<longrightarrow> fst (recommendation_texts e p q n None) = failed_reason_sentence (brand p) (name p))
   \<and> (generate_content e (reason_prompt_of e q n p) = Inr (PlainText answer)
        \<and> strip answer \<noteq> []
        \<longrightarrow> fst (recommendation_texts e p q n None) = strip answer)
   \<and> missing_reason_sentence p \<noteq> []
   \<and> failed_reason_sentence (brand p) (name p) \<noteq> []
   \<and> ((\<forall>t. generate_content e (reason_prompt_of e q n p) = Inr (PlainText t)
             \<longrightarrow> strip t \<noteq> [])
        \<longrightarrow> fst (recommendation_texts e p q n pre) \<noteq> [])
   \<and> (srs_assemble e q si sf = Inr resp
        \<and> (\<forall>d \<in> set (select_top sf). \<forall>t.
              generate_content e (reason_prompt_of e q (user_needs si) (product d))
                = Inr (PlainText t)
              \<longrightarrow> strip t \<noteq> [])
        \<longrightarrow> (\<forall>out \<in> set (response_product resp). out_recommendation_reason out \<noteq> []))
   \<and> ((\<forall>d \<in> set (select_top sf). py_int e (danawa_product_id (product d)) \<noteq> None)
        \<longrightarrow> (\<exists>resp. srs_assemble e q si sf = Inr resp))"
proof -
  have 1: "map rec_product_code (rerank_with_fallback e q i fused) = map pid (take 5 fused)"
    by (rule rerank_codes)
  have 2: "\<forall>r \<in> set (rerank_with_fallback e q i fused). rec_recommendation_reason r \<noteq> []"
    by (auto simp: rerank_with_fallback_def Let_def final_reason_nonempty)
  have 3: "generate_content e (rerank_prompt e q i fused) = Inl err
        \<longrightarrow> reason_map_of e q i fused = Map.empty"
    by (simp add: reason_map_of_def)
  have 4: "reason_map_of e q i fused (danawa_product_id p) = None
        \<longrightarrow> final_reason (reason_map_of e q i fused) p = generate_fallback_reason p"
    by (simp add: final_reason_def)
  have 5: "generate_fallback_reason (p\<lparr>name := n'\<rparr>) = generate_fallback_reason p"
    by (simp add: generate_fallback_reason_def)
  have 6: "take (length (brand p)) (generate_fallback_reason p) = brand p"
    by (simp add: generate_fallback_reason_def)
  have 7: "generate_content e (batch_product_analysis_prompt e q n (map product tops)) = Inl err
        \<longrightarrow> batch_analyze_products e q n tops = Map.empty"
    by (simp add: batch_analyze_products_def)
  have 8: "item_recommendation_reason a = None
        \<longrightarrow> fst (recommendation_texts e p q n (Some a)) = missing_reason_sentence p"
    by (simp add: recommendation_texts_def text_or_def)
  have 9: "fst (recommendation_texts e p q n (Some a)) \<noteq> []"
    by (simp add: recommendation_texts_def text_or_nonempty missing_reason_nonempty)
  have 10: "generate_content e (reason_prompt_of e q n p) = Inl err
        \<longrightarrow> fst (recommendation_texts e p q n None) = failed_reason_sentence (brand p) (name p)"
    by (simp add: own_call_reason)
  have 11: "generate_content e (reason_prompt_of e q n p) = Inr (PlainText answer)
        \<and> strip answer \<noteq> []
        \<longrightarrow> fst (recommendation_texts e p q n None) = strip answer"
    by (simp add: own_call_reason)
  have 12: "(\<forall>t. generate_content e (reason_prompt_of e q n p) = Inr (PlainText t)
             \<longrightarrow> strip t \<noteq> [])
        \<longrightarrow> fst (recommendation_texts e p q n pre) \<noteq> []"
    using recommendation_reason_nonempty [of e q n p pre] by blast
  have 13: "srs_assemble e q si sf = Inr resp
        \<and> (\<forall>d \<in> set (select_top sf). \<forall>t.
              generate_content e (reason_prompt_of e q (user_needs si) (product d))
                = Inr (PlainText t)
              \<longrightarrow> strip t \<noteq> [])
        \<longrightarrow> (\<forall>out \<in> set (response_product resp). out_recommendation_reason out \<noteq> [])"
    using srs_assemble_reasons [of e q si sf resp] by blast
  have 14: "(\<forall>d \<in> set (select_top sf). py_int e (danawa_product_id (product d)) \<noteq> None)
        \<longrightarrow> (\<exists>resp. srs_assemble e q si sf = Inr resp)"
    using srs_assemble_succeeds [of sf e q si] by blast
  from 1 2 3 4 5 6 7 8 9 10 11 12 13 14
    fallback_nonempty [of p] missing_reason_nonempty [of p]
    failed_reason_nonempty [of "brand p" "name p"]
  show ?thesis by (intro conjI)
qed

text \<open>In the world where every call to the language model raises, the one candidate gets
  the templated sentence in both flows; in the world where the calls per product answer,
  it gets the stripped answer, and the assembled response carries it.\<close>

theorem reason_fallbacks_witness:
  "generate_content example_env
       (rerank_prompt example_env ''laptop'' degraded_intent [item ''1001'' (1 / 2)])
     = Inl ProviderError
   \<and> reason_map_of example_env ''laptop'' degraded_intent [item ''1001'' (1 / 2)] ''1001'' = None
   \<and> map rec_product_code
         (rerank_with_fallback example_env ''laptop'' degraded_intent [item ''1001'' (1 / 2)])
       = [''1001'']
   \<and> map rec_recommendation_reason
         (rerank_with_fallback example_env ''laptop'' degraded_intent [item ''1001'' (1 / 2)])
       = [generate_fallback_reason laptop]
   \<and> generate_content example_env (batch_product_analysis_prompt example_env ''laptop''
         ''laptop'' (map product [hit_with (3 / 4)])) = Inl ProviderError
   \<and> batch_analyze_products example_env ''laptop'' ''laptop'' [hit_with (3 / 4)] = Map.empty
   \<and> item_recommendation_reason
         \<lparr>item_product_code = ''1001'', item_recommendation_reason = None,
          item_ai_review_summary = None\<rparr> = None
   \<and> fst (recommendation_texts example_env laptop ''laptop'' ''laptop''
              (Some \<lparr>item_product_code = ''1001'', item_recommendation_reason = None,
                     item_ai_review_summary = None\<rparr>))
       = missing_reason_sentence laptop
   \<and> generate_content example_env (reason_prompt_of example_env ''laptop'' ''laptop'' laptop)
       = Inl ProviderError
   \<and> fst (recommendation_texts example_env laptop ''laptop'' ''laptop'' None)
       = failed_reason_sentence (brand laptop) (name laptop)
   \<and> generate_content chatty_env (reason_prompt_of chatty_env ''laptop'' ''laptop'' laptop)
       = Inr (PlainText ''Great for study. '')
   \<and> strip ''Great for study. '' = ''Great for study.''
   \<and> fst (recommendation_texts chatty_env laptop ''laptop'' ''laptop'' None)
       = ''Great for study.''
   \<and> select_top [hit_with (3 / 4)] = [hit_with (3 / 4)]
   \<and> py_int chatty_env (danawa_product_id (product (hit_with (3 / 4)))) = Some 1001
   \<and> (\<exists>resp. srs_assemble chatty_env ''laptop'' laptop_intent [hit_with (3 / 4)] = Inr resp
         \<and> map out_recommendation_reason (response_product resp) = [''Great for study.'']
         \<and> [] \<notin> set (map out_recommendation_reason (response_product resp)))"
proof -
  note t = reason_fallbacks
    [where e = example_env and q = "''laptop''" and i = degraded_intent
       and fused = "[item ''1001'' (1 / 2)]" and err = ProviderError and p = laptop
       and n = "''laptop''" and tops = "[hit_with (3 / 4)]"
       and a = "\<lparr>item_product_code = ''1001'', item_recommendation_reason = None,
                 item_ai_review_summary = None\<rparr>"]
  have g: "generate_content example_env x = Inl ProviderError" for x
    by (simp add: example_env_def)
  from t g have m: "reason_map_of example_env ''laptop'' degraded_intent [item ''1001'' (1 / 2)]
                     = Map.empty"
    by blast
  from t m have r: "final_reason
        (reason_map_of example_env ''laptop'' degraded_intent [item ''1001'' (1 / 2)]) laptop
      = generate_fallback_reason laptop"
    by (simp add: laptop_def)
  have p: "product (item ''1001'' (1 / 2)) = laptop"
    by (simp add: item_def laptop_def)
  from t have "map rec_product_code
         (rerank_with_fallback example_env ''laptop'' degraded_intent [item ''1001'' (1 / 2)])
       = map pid (take 5 [item ''1001'' (1 / 2)])"
    by blast
  then have 2: "map rec_product_code
         (rerank_with_fallback example_env ''laptop'' degraded_intent [item ''1001'' (1 / 2)])
       = [''1001'']"
    by (simp add: pid_def p laptop_def)
  have 3: "map rec_recommendation_reason
         (rerank_with_fallback example_env ''laptop'' degraded_intent [item ''1001'' (1 / 2)])
       = [generate_fallback_reason laptop]"
    by (simp add: rerank_reasons TOP_K_def p r)
  from t g have 5: "batch_analyze_products example_env ''laptop'' ''laptop'' [hit_with (3 / 4)]
                     = Map.empty"
    by blast
  from t have 7: "fst (recommendation_texts example_env laptop ''laptop'' ''laptop''
              (Some \<lparr>item_product_code = ''1001'', item_recommendation_reason = None,
                     item_ai_review_summary = None\<rparr>))
       = missing_reason_sentence laptop"
    by simp
  from t g have 9: "fst (recommendation_texts example_env laptop ''laptop'' ''laptop'' None)
       = failed_reason_sentence (brand laptop) (name laptop)"
    by blast
  note c = reason_fallbacks
    [where e = chatty_env and q = "''laptop''" and p = laptop and n = "''laptop''"
       and answer = "''Great for study. ''" and si = laptop_intent
       and sf = "[hit_with (3 / 4)]"]
  have a: "generate_content chatty_env (reason_prompt_of chatty_env x y z)
             = Inr (PlainText ''Great for study. '')" for x y z
    by (simp add: chatty_env_def example_env_def reason_prompt_of_def)
  have s: "strip ''Great for study. '' = ''Great for study.''"
    by code_simp
  from c a s have 11: "fst (recommendation_texts chatty_env laptop ''laptop'' ''laptop'' None)
       = ''Great for study.''"
    by simp
  have st: "select_top [hit_with (3 / 4)] = [hit_with (3 / 4)]"
    by (simp add: select_top_def Let_def TOP_K_def MIN_SIMILARITY_def hit_with_def)
  have pi: "py_int chatty_env (danawa_product_id (product (hit_with (3 / 4)))) = Some 1001"
    by (simp add: chatty_env_def example_env_def hit_with_def laptop_def)
  from c have "(\<forall>d \<in> set (select_top [hit_with (3 / 4)]).
                   py_int chatty_env (danawa_product_id (product d)) \<noteq> None)
        \<longrightarrow> (\<exists>resp. srs_assemble chatty_env ''laptop'' laptop_intent [hit_with (3 / 4)]
                      = Inr resp)"
    by blast
  with st pi
  obtain resp where resp: "srs_assemble chatty_env ''laptop'' laptop_intent [hit_with (3 / 4)]
                             = Inr resp"
    by auto
  have "\<forall>d \<in> set (select_top [hit_with (3 / 4)]). \<forall>t.
          generate_content chatty_env
              (reason_prompt_of chatty_env ''laptop'' (user_needs laptop_intent) (product d))
            = Inr (PlainText t)
          \<longrightarrow> strip t \<noteq> []"
    using a s by simp
  with c [where resp = resp] resp
  have ne: "\<forall>out \<in> set (response_product resp). out_recommendation_reason out \<noteq> []"
    by blast
  then have 13: "[] \<notin> set (map out_recommendation_reason (response_product resp))"
    by auto
  have "map_sum id (\<lambda>r. map out_recommendation_reason (response_product r))
          (srs_assemble chatty_env ''laptop'' laptop_intent [hit_with (3 / 4)])
        = Inr [''Great for study.'']"
    by code_simp
  with resp have 12: "map out_recommendation_reason (response_product resp)
                       = [''Great for study.'']"
    by simp
  from resp 12 13
  have x: "\<exists>resp. srs_assemble chatty_env ''laptop'' laptop_intent [hit_with (3 / 4)] = Inr resp
         \<and> map out_recommendation_reason (response_product resp) = [''Great for study.'']
         \<and> [] \<notin> set (map out_recommendation_reason (response_product resp))"
    by (intro exI [of _ resp] conjI)
  from m have m': "reason_map_of example_env ''laptop'' degraded_intent [item ''1001'' (1 / 2)]
                     ''1001'' = None"
    by simp
  have n: "item_recommendation_reason
         \<lparr>item_product_code = ''1001'', item_recommendation_reason = None,
          item_ai_review_summary = None\<rparr> = None"
    by simp
  from g m' 2 3 5 7 9 a s 11 st pi x n show ?thesis by blast
qed

end
